theory Spec2Isabelle
  imports Complex_Main "HOL-Library.Char_ord" "HOL-Library.List_Lexorder"
begin

section \<open>The aging-GAN trainer: data preparation, schedules, training step, evaluation, run loop\<close>

text \<open>
  A shallow embedding of \<^verbatim>\<open>aging_gan/data.py\<close> and \<^verbatim>\<open>aging_gan/train.py\<close>.
  Python's unbounded integers are \<open>int\<close>, list positions are \<open>nat\<close>, strings are
  \<open>string\<close>, and Python floats are idealised as \<open>real\<close> (rounding, infinities other
  than the initial \<^verbatim>\<open>float("inf")\<close> of the run loop, and NaN are outside the model).
  Every exception the modelled code can raise is a value of \<open>py_error\<close>, returned as
  \<open>Inl\<close>. Tensors, networks, the optimiser, automatic differentiation and the FID
  metric belong to libraries: they are parameters of the model, collected in records.
\<close>

datatype py_error =
    FileNotFoundError
  | ValueError
  | KeyError
  | IndexError
  | ZeroDivisionError
  | RuntimeError

subsection \<open>data.py\<close>

text \<open>
  What the interpreter and torch supply to \<^verbatim>\<open>data.py\<close>: the builtin \<^verbatim>\<open>int()\<close> on a
  string (\<open>None\<close> where it raises \<^verbatim>\<open>ValueError\<close>), \<^verbatim>\<open>torch.Generator().manual_seed\<close>
  and \<^verbatim>\<open>torch.randperm(n, generator=rng)\<close>, which returns the permutation and advances
  the generator.
\<close>

record 'rng host =
  py_int :: "string \<Rightarrow> int option"
  manual_seed :: "int \<Rightarrow> 'rng"
  randperm :: "nat \<Rightarrow> 'rng \<Rightarrow> nat list \<times> 'rng"

text \<open>\<^verbatim>\<open>name.split("_")[0]\<close>: the part of the name before its first underscore.\<close>

definition first_field :: "string \<Rightarrow> string" where
  "first_field name = takeWhile (\<lambda>c. c \<noteq> CHR ''_'') name"

text \<open>
  \<^verbatim>\<open>UTKFace.__init__\<close>. The argument is what \<^verbatim>\<open>self.root.glob("*.jpg")\<close> yields, as file
  names; all paths share one parent, so sorting the paths is sorting the names. The
  result is \<^verbatim>\<open>self.files\<close>.
\<close>

definition UTKFace_init :: "string list \<Rightarrow> py_error + string list" where
  "UTKFace_init jpgs =
     (let files = sort jpgs
      in if files = [] then Inl FileNotFoundError else Inr files)"

definition default_young_max :: int where
  "default_young_max = 28"

definition default_old_min :: int where
  "default_old_min = 40"

text \<open>
  The loop \<^verbatim>\<open>for i, f in enumerate(full_ds.files)\<close> of \<^verbatim>\<open>make_unpaired_loader\<close>, with the
  next index and the two index lists built so far.
\<close>

fun bucket_ages ::
  "'rng host \<Rightarrow> int \<Rightarrow> int \<Rightarrow> nat \<Rightarrow> string list \<Rightarrow> nat list \<Rightarrow> nat list
     \<Rightarrow> py_error + nat list \<times> nat list" where
  "bucket_ages h young_max old_min i [] young_idx old_idx = Inr (young_idx, old_idx)"
| "bucket_ages h young_max old_min i (f # fs) young_idx old_idx =
     (case py_int h (first_field f) of
        None \<Rightarrow> Inl ValueError
      | Some age \<Rightarrow>
          if age \<le> young_max \<and> age \<ge> 18
          then bucket_ages h young_max old_min (Suc i) fs (young_idx @ [i]) old_idx
          else if age \<ge> old_min
          then bucket_ages h young_max old_min (Suc i) fs young_idx (old_idx @ [i])
          else bucket_ages h young_max old_min (Suc i) fs young_idx old_idx)"

text \<open>
  \<^verbatim>\<open>split_indices\<close>: shuffle by a random permutation, then cut at 80 and 90 percent.
  \<^verbatim>\<open>int(0.8 * n)\<close> and \<^verbatim>\<open>int(0.9 * n)\<close> are written in integer arithmetic. Indexing a
  tensor out of range raises \<^verbatim>\<open>IndexError\<close>. The result is the dictionary of the three
  parts and the advanced generator.
\<close>

definition split_indices ::
  "'rng host \<Rightarrow> nat list \<Rightarrow> 'rng \<Rightarrow> py_error + (string \<times> nat list) list \<times> 'rng" where
  "split_indices h idxs rng =
     (let (perm, rng') = randperm h (length idxs) rng
      in if list_all (\<lambda>p. p < length idxs) perm
         then
           (let shuffled = map (\<lambda>p. idxs ! p) perm;
                n = length shuffled;
                train = (4 * n) div 5;
                valid = (9 * n) div 10
            in Inr ([(''train'', take train shuffled),
                     (''valid'', drop train (take valid shuffled)),
                     (''test'', drop valid shuffled)], rng'))
         else Inl IndexError)"

text \<open>
  The \<^verbatim>\<open>DataLoader\<close> over the \<^verbatim>\<open>Unpaired\<close> dataset: the two index subsets of the
  full dataset and the loader's options.
\<close>

record loader =
  young_ds :: "nat list"
  old_ds :: "nat list"
  batch_size :: int
  shuffle :: bool
  drop_last :: bool

text \<open>
  \<^verbatim>\<open>make_unpaired_loader\<close>, given what the glob of the dataset directory yields. The
  root path, the transform and the number of workers do not enter the choice of the
  indices and are left out. The generator is seeded once and used for the young part
  first and the old part second; the part of the wanted split is looked up after each
  shuffle, and a split name that is not a key raises \<^verbatim>\<open>KeyError\<close>.
\<close>

definition make_unpaired_loader ::
  "'rng host \<Rightarrow> string list \<Rightarrow> string \<Rightarrow> int \<Rightarrow> int \<Rightarrow> int \<Rightarrow> int \<Rightarrow> py_error + loader" where
  "make_unpaired_loader h jpgs split bsz seed young_max old_min =
     (case UTKFace_init jpgs of
        Inl e \<Rightarrow> Inl e
      | Inr files \<Rightarrow>
     (case bucket_ages h young_max old_min 0 files [] [] of
        Inl e \<Rightarrow> Inl e
      | Inr (young_idx, old_idx) \<Rightarrow>
     if young_idx = [] \<or> old_idx = [] then Inl ValueError
     else
     (case split_indices h young_idx (manual_seed h seed) of
        Inl e \<Rightarrow> Inl e
      | Inr (parts_y, rng1) \<Rightarrow>
     (case map_of parts_y split of
        None \<Rightarrow> Inl KeyError
      | Some part_y \<Rightarrow>
     (case split_indices h old_idx rng1 of
        Inl e \<Rightarrow> Inl e
      | Inr (parts_o, rng2) \<Rightarrow>
     (case map_of parts_o split of
        None \<Rightarrow> Inl KeyError
      | Some part_o \<Rightarrow>
          (let limit = min (length part_y) (length part_o)
           in Inr \<lparr>young_ds = take limit part_y, old_ds = take limit part_o,
                    batch_size = bsz, shuffle = (split = ''train''),
                    drop_last = (split = ''train'')\<rparr>)))))))"

text \<open>
  \<^verbatim>\<open>prepare_dataset\<close> builds the three loaders in the order train, valid, test, with
  the default age thresholds. The first component of the result lists the calls of
  \<^verbatim>\<open>make_unpaired_loader\<close> that were made, by split name; an exception ends the
  function at the call that raised it.
\<close>

definition prepare_dataset ::
  "'rng host \<Rightarrow> string list \<Rightarrow> int \<Rightarrow> int \<Rightarrow> int
     \<Rightarrow> string list \<times> (py_error + loader \<times> loader \<times> loader)" where
  "prepare_dataset h jpgs train_batch_size eval_batch_size seed =
     (case make_unpaired_loader h jpgs ''train'' train_batch_size seed
             default_young_max default_old_min of
        Inl e \<Rightarrow> ([''train''], Inl e)
      | Inr train_loader \<Rightarrow>
     (case make_unpaired_loader h jpgs ''valid'' eval_batch_size seed
             default_young_max default_old_min of
        Inl e \<Rightarrow> ([''train'', ''valid''], Inl e)
      | Inr val_loader \<Rightarrow>
     (case make_unpaired_loader h jpgs ''test'' eval_batch_size seed
             default_young_max default_old_min of
        Inl e \<Rightarrow> ([''train'', ''valid'', ''test''], Inl e)
      | Inr test_loader \<Rightarrow>
          ([''train'', ''valid'', ''test''], Inr (train_loader, val_loader, test_loader)))))"

text \<open>
  A host for examples: decimal reading of a non-empty string of ASCII digits, on which
  it agrees with \<^verbatim>\<open>int()\<close>, and the identity permutation.
\<close>

definition ascii_decimal :: "string \<Rightarrow> int option" where
  "ascii_decimal s =
     (if s \<noteq> [] \<and> list_all (\<lambda>c. CHR ''0'' \<le> c \<and> c \<le> CHR ''9'') s
      then Some (foldl (\<lambda>acc c. 10 * acc + (int (of_char c) - 48)) 0 s)
      else None)"

definition example_host :: "unit host" where
  "example_host =
     \<lparr>py_int = ascii_decimal, manual_seed = (\<lambda>_. ()), randperm = (\<lambda>n rng. ([0..<n], rng))\<rparr>"

definition example_jpgs :: "string list" where
  "example_jpgs = [''45_1_0.jpg'', ''25_0_1.jpg'', ''30_0_0.jpg'', ''61_1_3.jpg'', ''21_1_2.jpg'', ''10_0_0.jpg'']"

subsection \<open>train.py: configuration and start of the run\<close>

text \<open>The fields of the parsed command line that the modelled code reads.\<close>

record cfg =
  num_train_epochs :: int
  train_batch_size :: int
  eval_batch_size :: int
  seed :: int
  archive_and_terminate_ec2 :: bool
  s3_bucket_name :: string

text \<open>
  What \<^verbatim>\<open>main\<close> asks of its collaborators, in the order of the calls: building a
  loader, constructing the four networks, writing a checkpoint (epoch and tag), and
  archiving the outputs (bucket and prefix).
\<close>

datatype run_event =
    MakeUnpairedLoader string
  | InitializeModels
  | SaveCheckpoint int string
  | ArchiveEc2 string string

text \<open>
  \<^verbatim>\<open>main\<close> from \<^verbatim>\<open>Data Preprocessing\<close> to the call of \<^verbatim>\<open>initialize_models\<close>: the
  networks are constructed only when \<^verbatim>\<open>prepare_dataset\<close> has returned.
\<close>

definition main_startup ::
  "'rng host \<Rightarrow> cfg \<Rightarrow> string list
     \<Rightarrow> run_event list \<times> (py_error + loader \<times> loader \<times> loader)" where
  "main_startup h c jpgs =
     (case prepare_dataset h jpgs (train_batch_size c) (eval_batch_size c) (seed c) of
        (calls, Inl e) \<Rightarrow> (map MakeUnpairedLoader calls, Inl e)
      | (calls, Inr loaders) \<Rightarrow>
          (map MakeUnpairedLoader calls @ [InitializeModels], Inr loaders))"

definition example_cfg :: cfg where
  "example_cfg =
     \<lparr>num_train_epochs = 4, train_batch_size = 1, eval_batch_size = 1, seed = 42,
      archive_and_terminate_ec2 = False, s3_bucket_name = ''aging-gan''\<rparr>"

subsection \<open>train.py: learning-rate schedules\<close>

text \<open>The four optimised modules; each has its own optimiser and its own schedule.\<close>

datatype module = Gen_G | Gen_F | Disc_DX | Disc_DY

text \<open>
  The closure \<^verbatim>\<open>_lr_lambda\<close> of \<^verbatim>\<open>make_schedulers\<close>, with \<^verbatim>\<open>n_epochs\<close> as its first
  argument. \<^verbatim>\<open>//\<close> is floor division, \<^verbatim>\<open>/\<close> raises on a zero divisor.
\<close>

definition lr_lambda :: "int \<Rightarrow> int \<Rightarrow> py_error + real" where
  "lr_lambda n_epochs epoch =
     (let start_decay = n_epochs div 2
      in if epoch < start_decay then Inr 1
         else if n_epochs - start_decay = 0 then Inl ZeroDivisionError
         else Inr (max 0 (real_of_int (n_epochs - epoch) / real_of_int (n_epochs - start_decay))))"

text \<open>
  A \<^verbatim>\<open>LambdaLR\<close>: the optimiser it drives, its multiplier function and its epoch counter.
\<close>

record LambdaLR =
  sched_optimizer :: module
  sched_lr_lambda :: "int \<Rightarrow> py_error + real"
  last_epoch :: int

definition make_schedulers :: "cfg \<Rightarrow> LambdaLR \<times> LambdaLR \<times> LambdaLR \<times> LambdaLR" where
  "make_schedulers c =
     (let n_epochs = num_train_epochs c
      in (\<lparr>sched_optimizer = Gen_G, sched_lr_lambda = lr_lambda n_epochs, last_epoch = 0\<rparr>,
          \<lparr>sched_optimizer = Gen_F, sched_lr_lambda = lr_lambda n_epochs, last_epoch = 0\<rparr>,
          \<lparr>sched_optimizer = Disc_DX, sched_lr_lambda = lr_lambda n_epochs, last_epoch = 0\<rparr>,
          \<lparr>sched_optimizer = Disc_DY, sched_lr_lambda = lr_lambda n_epochs, last_epoch = 0\<rparr>))"

subsection \<open>train.py: the epoch loop of main and its checkpoints\<close>

text \<open>
  The state the loop of \<^verbatim>\<open>main\<close> changes: \<^verbatim>\<open>best_fid\<close> (\<open>None\<close> is the initial
  \<^verbatim>\<open>float("inf")\<close>), the checkpoint files on disk by tag with the epoch each one holds,
  and the calls made to the collaborators.
\<close>

record run_state =
  best_fid :: "real option"
  checkpoints :: "string \<rightharpoonup> int"
  events :: "run_event list"

definition initial_run_state :: run_state where
  "initial_run_state = \<lparr>best_fid = None, checkpoints = Map.empty, events = []\<rparr>"

text \<open>\<^verbatim>\<open>v < best_fid\<close>: every real is below \<^verbatim>\<open>float("inf")\<close>.\<close>

definition below_best :: "real \<Rightarrow> real option \<Rightarrow> bool" where
  "below_best v b = (case b of None \<Rightarrow> True | Some b' \<Rightarrow> v < b')"

text \<open>
  Modelled from the spec: \<^verbatim>\<open>save_checkpoint\<close> of \<^verbatim>\<open>aging_gan.utils\<close>, which is not among
  the sources. The checkpoint file named by the tag is overwritten as a whole and holds
  the given epoch (with the parameters and the optimiser and scheduler states, which
  this model leaves out).
\<close>

definition save_checkpoint :: "int \<Rightarrow> string \<Rightarrow> run_state \<Rightarrow> run_state" where
  "save_checkpoint epoch tag st =
     st\<lparr>checkpoints := (checkpoints st)(tag \<mapsto> epoch),
        events := events st @ [SaveCheckpoint epoch tag]\<rparr>"

text \<open>
  Modelled from the spec: \<^verbatim>\<open>archive_ec2\<close> of \<^verbatim>\<open>aging_gan.utils\<close>, which is not among the
  sources. It uploads the outputs directory and changes nothing the loop reads.
\<close>

definition archive_ec2 :: "string \<Rightarrow> string \<Rightarrow> run_state \<Rightarrow> run_state" where
  "archive_ec2 bucket prefix st = st\<lparr>events := events st @ [ArchiveEc2 bucket prefix]\<rparr>"

text \<open>
  The body of the loop after \<^verbatim>\<open>perform_epoch\<close> has returned: \<open>fid\<close> is
  \<^verbatim>\<open>val_metrics["val/fid_val"]\<close>.
\<close>

definition epoch_checkpoints :: "cfg \<Rightarrow> string \<Rightarrow> int \<Rightarrow> real \<Rightarrow> run_state \<Rightarrow> run_state" where
  "epoch_checkpoints c run_name epoch fid st =
     (let st1 =
        (if below_best fid (best_fid st)
         then (let saved = save_checkpoint epoch ''best'' (st\<lparr>best_fid := Some fid\<rparr>)
               in if archive_and_terminate_ec2 c
                  then archive_ec2 (s3_bucket_name c) (''outputs/run-'' @ run_name) saved
                  else saved)
         else st)
      in if epoch mod 5 = 0
         then (let saved = save_checkpoint epoch ''current'' st1
               in if archive_and_terminate_ec2 c
                  then archive_ec2 (s3_bucket_name c) (''outputs/run-'' @ run_name) saved
                  else saved)
         else st1)"

text \<open>
  The loop over the epochs still to run. \<open>perform_epoch\<close> stands for the call of that
  name: it gives, for an epoch, the validation FID of the metrics it returns, or the
  exception it raises, which ends the loop and leaves what was written so far.
\<close>

fun run_epochs ::
  "cfg \<Rightarrow> string \<Rightarrow> (int \<Rightarrow> py_error + real) \<Rightarrow> int list \<Rightarrow> run_state
     \<Rightarrow> run_state \<times> py_error option" where
  "run_epochs c run_name perform_epoch [] st = (st, None)"
| "run_epochs c run_name perform_epoch (epoch # rest) st =
     (case perform_epoch epoch of
        Inl e \<Rightarrow> (st, Some e)
      | Inr fid \<Rightarrow>
          run_epochs c run_name perform_epoch rest (epoch_checkpoints c run_name epoch fid st))"

text \<open>\<^verbatim>\<open>for epoch in range(1, cfg.num_train_epochs + 1)\<close>, from the initial state.\<close>

definition main_epochs ::
  "cfg \<Rightarrow> string \<Rightarrow> (int \<Rightarrow> py_error + real) \<Rightarrow> run_state \<times> py_error option" where
  "main_epochs c run_name perform_epoch =
     run_epochs c run_name perform_epoch [1..num_train_epochs c] initial_run_state"

text \<open>The epochs at which a checkpoint with the given tag was written, in order.\<close>

fun checkpoint_epochs :: "string \<Rightarrow> run_event list \<Rightarrow> int list" where
  "checkpoint_epochs tag [] = []"
| "checkpoint_epochs tag (SaveCheckpoint epoch t # evs) =
     (if t = tag then epoch # checkpoint_epochs tag evs else checkpoint_epochs tag evs)"
| "checkpoint_epochs tag (ev # evs) = checkpoint_epochs tag evs"

text \<open>An example sequence of validation FIDs: 5, 3, 4, 2 for the epochs 1 to 4.\<close>

definition example_val_fid :: "int \<Rightarrow> real" where
  "example_val_fid e = (if e = 1 then 5 else if e = 2 then 3 else if e = 3 then 4 else 2)"

subsection \<open>train.py: networks, losses and the forward computation\<close>

text \<open>
  The four networks as functions on image batches (\<open>'img\<close>) with logits \<open>'lg\<close>, and
  the torch operations the losses use: \<^verbatim>\<open>nn.MSELoss()\<close>, \<^verbatim>\<open>nn.L1Loss()\<close>,
  \<^verbatim>\<open>torch.ones_like\<close>, \<^verbatim>\<open>torch.zeros_like\<close>, and the rescaling
  \<^verbatim>\<open>(t * 0.5 + 0.5).float()\<close> of a batch. A loss value is a real.
\<close>

record ('img, 'lg) nets =
  net_G :: "'img \<Rightarrow> 'img"
  net_F :: "'img \<Rightarrow> 'img"
  net_DX :: "'img \<Rightarrow> 'lg"
  net_DY :: "'img \<Rightarrow> 'lg"

record ('img, 'lg) torch_ops =
  mse :: "'lg \<Rightarrow> 'lg \<Rightarrow> real"
  l1 :: "'img \<Rightarrow> 'img \<Rightarrow> real"
  ones_like :: "'lg \<Rightarrow> 'lg"
  zeros_like :: "'lg \<Rightarrow> 'lg"
  unit_range :: "'img \<Rightarrow> 'img"

record loss_weights =
  lambda_adv :: real
  lambda_cyc :: real
  lambda_id :: real

text \<open>
  The forward pass and the generator losses, written the same way in
  \<^verbatim>\<open>perform_train_step\<close> and in \<^verbatim>\<open>evaluate_epoch\<close>: the two fakes and the five
  generator loss values.
\<close>

record 'img gen_pass =
  fake_x :: 'img
  fake_y :: 'img
  loss_f_adv :: real
  loss_g_adv :: real
  loss_cyc :: real
  loss_id :: real
  loss_gen_total :: real

definition generator_forward ::
  "('img, 'lg) nets \<Rightarrow> ('img, 'lg) torch_ops \<Rightarrow> loss_weights \<Rightarrow> 'img \<Rightarrow> 'img \<Rightarrow> 'img gen_pass" where
  "generator_forward n t w x y =
     (let fx = net_F n y;
          fy = net_G n x;
          rec_x = net_F n fy;
          rec_y = net_G n fx;
          logits_x = net_DX n fx;
          f_adv = lambda_adv w * mse t logits_x (ones_like t logits_x);
          logits_y = net_DY n fy;
          g_adv = lambda_adv w * mse t logits_y (ones_like t logits_y);
          cyc = lambda_cyc w * (l1 t rec_x x + l1 t rec_y y);
          idt = lambda_id w * (l1 t (net_G n y) y + l1 t (net_F n x) x)
      in \<lparr>fake_x = fx, fake_y = fy, loss_f_adv = f_adv, loss_g_adv = g_adv,
          loss_cyc = cyc, loss_id = idt, loss_gen_total = g_adv + f_adv + cyc + idt\<rparr>)"

text \<open>
  The loss of one discriminator \<open>d\<close> on a real batch and a fake one:
  \<^verbatim>\<open>0.5 * (real_loss + fake_loss)\<close>.
\<close>

definition discriminator_loss ::
  "('img, 'lg) torch_ops \<Rightarrow> ('img \<Rightarrow> 'lg) \<Rightarrow> 'img \<Rightarrow> 'img \<Rightarrow> real" where
  "discriminator_loss t d real_img fake_img =
     (let real_logits = d real_img;
          real_loss = mse t real_logits (ones_like t real_logits);
          fake_logits = d fake_img;
          fake_loss = mse t fake_logits (zeros_like t fake_logits)
      in 0.5 * (real_loss + fake_loss))"

subsection \<open>train.py: perform_train_step\<close>

text \<open>
  What torch and accelerate supply to the training step, over parameter sets \<open>'p\<close>,
  gradients \<open>'g\<close> and optimiser states \<open>'o\<close>: the four networks as functions of their
  parameters; the gradient of a scalar loss, seen as a function of one module's
  parameters, at the current parameters (\<^verbatim>\<open>accelerator.backward\<close>); the sum of two
  gradients, for accumulation into a \<^verbatim>\<open>.grad\<close> that is present; the clipping
  coefficient of \<^verbatim>\<open>clip_grad_norm_\<close> for the gradients of a group and a maximal norm,
  and the scaling of a gradient by it; and one \<^verbatim>\<open>step\<close> of an Adam optimiser, from
  its state, the parameters it owns and their gradient to the new state and parameters.
\<close>

record ('img, 'lg, 'p, 'g, 'o) autograd =
  fwd_G :: "'p \<Rightarrow> 'img \<Rightarrow> 'img"
  fwd_F :: "'p \<Rightarrow> 'img \<Rightarrow> 'img"
  fwd_DX :: "'p \<Rightarrow> 'img \<Rightarrow> 'lg"
  fwd_DY :: "'p \<Rightarrow> 'img \<Rightarrow> 'lg"
  gradient :: "('p \<Rightarrow> real) \<Rightarrow> 'p \<Rightarrow> 'g"
  grad_add :: "'g \<Rightarrow> 'g \<Rightarrow> 'g"
  clip_coef :: "'g list \<Rightarrow> real \<Rightarrow> real"
  grad_scale :: "real \<Rightarrow> 'g \<Rightarrow> 'g"
  adam_step :: "'o \<Rightarrow> 'p \<Rightarrow> 'g option \<Rightarrow> 'o \<times> 'p"

text \<open>
  The mutable state of a step: per module its parameters, its \<^verbatim>\<open>.grad\<close> (\<open>None\<close>
  after \<^verbatim>\<open>zero_grad(set_to_none=True)\<close>) and the state of its optimiser, and the calls
  made so far. Each optimiser was built over the parameters of its own module
  (\<^verbatim>\<open>initialize_optimizers\<close>).
\<close>

datatype train_call =
    ZeroGrad module
  | Backward "module list"
  | ClipGradNorm "module list"
  | OptStep module

record ('p, 'g, 'o) train_state =
  params :: "module \<Rightarrow> 'p"
  grads :: "module \<Rightarrow> 'g option"
  opt_states :: "module \<Rightarrow> 'o"
  calls :: "train_call list"

definition nets_at ::
  "('img, 'lg, 'p, 'g, 'o) autograd \<Rightarrow> (module \<Rightarrow> 'p) \<Rightarrow> ('img, 'lg) nets" where
  "nets_at ag \<theta> =
     \<lparr>net_G = fwd_G ag (\<theta> Gen_G), net_F = fwd_F ag (\<theta> Gen_F),
      net_DX = fwd_DX ag (\<theta> Disc_DX), net_DY = fwd_DY ag (\<theta> Disc_DY)\<rparr>"

definition zero_grad :: "module \<Rightarrow> ('p, 'g, 'o) train_state \<Rightarrow> ('p, 'g, 'o) train_state" where
  "zero_grad m s = s\<lparr>grads := (grads s)(m := None), calls := calls s @ [ZeroGrad m]\<rparr>"

text \<open>
  \<^verbatim>\<open>accelerator.backward(loss)\<close>. \<open>loss\<close> is the loss as a function of the parameters
  and \<open>ms\<close> are the modules whose parameters its graph reaches; a detached tensor is a
  constant of \<open>loss\<close> and reaches nothing. The gradient with respect to each such
  module is added to its \<^verbatim>\<open>.grad\<close>.
\<close>

definition backward ::
  "('img, 'lg, 'p, 'g, 'o) autograd \<Rightarrow> module list \<Rightarrow> ((module \<Rightarrow> 'p) \<Rightarrow> real)
     \<Rightarrow> ('p, 'g, 'o) train_state \<Rightarrow> ('p, 'g, 'o) train_state" where
  "backward ag ms loss s =
     s\<lparr>grads := (\<lambda>m. if m \<in> set ms
                       then (let d = gradient ag (\<lambda>p. loss ((params s)(m := p))) (params s m)
                             in case grads s m of
                                  None \<Rightarrow> Some d
                                | Some a \<Rightarrow> Some (grad_add ag a d))
                       else grads s m),
       calls := calls s @ [Backward ms]\<rparr>"

text \<open>\<^verbatim>\<open>accelerator.clip_grad_norm_(parameters of ms, max_norm)\<close>.\<close>

definition clip_grad_norm ::
  "('img, 'lg, 'p, 'g, 'o) autograd \<Rightarrow> module list \<Rightarrow> real
     \<Rightarrow> ('p, 'g, 'o) train_state \<Rightarrow> ('p, 'g, 'o) train_state" where
  "clip_grad_norm ag ms max_norm s =
     (let present = concat (map (\<lambda>m. case grads s m of None \<Rightarrow> [] | Some g \<Rightarrow> [g]) ms);
          c = clip_coef ag present max_norm
      in s\<lparr>grads := (\<lambda>m. if m \<in> set ms then map_option (grad_scale ag c) (grads s m)
                            else grads s m),
            calls := calls s @ [ClipGradNorm ms]\<rparr>)"

text \<open>\<^verbatim>\<open>opt.step()\<close> of the optimiser of module \<open>m\<close>.\<close>

definition opt_step ::
  "('img, 'lg, 'p, 'g, 'o) autograd \<Rightarrow> module
     \<Rightarrow> ('p, 'g, 'o) train_state \<Rightarrow> ('p, 'g, 'o) train_state" where
  "opt_step ag m s =
     (case adam_step ag (opt_states s m) (params s m) (grads s m) of
        (o', p') \<Rightarrow>
          s\<lparr>params := (params s)(m := p'), opt_states := (opt_states s)(m := o'),
            calls := calls s @ [OptStep m]\<rparr>)"

text \<open>
  The part of \<^verbatim>\<open>perform_train_step\<close> under \<^verbatim>\<open>Update Generators\<close>. It yields the new
  state and the forward pass, whose fakes the second part uses.
\<close>

definition update_generators ::
  "('img, 'lg, 'p, 'g, 'o) autograd \<Rightarrow> ('img, 'lg) torch_ops \<Rightarrow> loss_weights \<Rightarrow> 'img \<times> 'img
     \<Rightarrow> ('p, 'g, 'o) train_state \<Rightarrow> ('p, 'g, 'o) train_state \<times> 'img gen_pass" where
  "update_generators ag t w real_data s =
     (case real_data of (x, y) \<Rightarrow>
       (let s1 = zero_grad Gen_G s;
            s2 = zero_grad Gen_F s1;
            g = generator_forward (nets_at ag (params s2)) t w x y;
            s3 = backward ag [Gen_G, Gen_F, Disc_DX, Disc_DY]
                   (\<lambda>\<theta>. loss_gen_total (generator_forward (nets_at ag \<theta>) t w x y)) s2;
            s4 = clip_grad_norm ag [Gen_G, Gen_F] 1 s3;
            s5 = opt_step ag Gen_G s4;
            s6 = opt_step ag Gen_F s5
        in (s6, g)))"

text \<open>
  The part under \<^verbatim>\<open>Update Discriminators\<close>, given the fakes of the first part. They
  enter detached, as constants of the two losses. It yields the new state and the two
  discriminator losses.
\<close>

definition update_discriminators ::
  "('img, 'lg, 'p, 'g, 'o) autograd \<Rightarrow> ('img, 'lg) torch_ops \<Rightarrow> 'img \<times> 'img \<Rightarrow> 'img \<Rightarrow> 'img
     \<Rightarrow> ('p, 'g, 'o) train_state \<Rightarrow> ('p, 'g, 'o) train_state \<times> real \<times> real" where
  "update_discriminators ag t real_data fx fy s =
     (case real_data of (x, y) \<Rightarrow>
       (let s1 = zero_grad Disc_DX s;
            loss_DX = discriminator_loss t (fwd_DX ag (params s1 Disc_DX)) x fx;
            s2 = backward ag [Disc_DX]
                   (\<lambda>\<theta>. discriminator_loss t (fwd_DX ag (\<theta> Disc_DX)) x fx) s1;
            s3 = clip_grad_norm ag [Disc_DX] 1 s2;
            s4 = opt_step ag Disc_DX s3;
            s5 = zero_grad Disc_DY s4;
            loss_DY = discriminator_loss t (fwd_DY ag (params s5 Disc_DY)) y fy;
            s6 = backward ag [Disc_DY]
                   (\<lambda>\<theta>. discriminator_loss t (fwd_DY ag (\<theta> Disc_DY)) y fy) s5;
            s7 = clip_grad_norm ag [Disc_DY] 1 s6;
            s8 = opt_step ag Disc_DY s7
        in (s8, loss_DX, loss_DY)))"

definition perform_train_step ::
  "('img, 'lg, 'p, 'g, 'o) autograd \<Rightarrow> ('img, 'lg) torch_ops \<Rightarrow> loss_weights \<Rightarrow> 'img \<times> 'img
     \<Rightarrow> ('p, 'g, 'o) train_state \<Rightarrow> ('p, 'g, 'o) train_state \<times> (string \<times> real) list" where
  "perform_train_step ag t w real_data s =
     (case update_generators ag t w real_data s of
        (s1, g) \<Rightarrow>
          (case update_discriminators ag t real_data (fake_x g) (fake_y g) s1 of
             (s2, loss_DX, loss_DY) \<Rightarrow>
               (s2, [(''train/loss_DX'', loss_DX), (''train/loss_DY'', loss_DY),
                     (''train/loss_f_adv'', loss_f_adv g), (''train/loss_g_adv'', loss_g_adv g),
                     (''train/loss_cyc'', loss_cyc g), (''train/loss_id'', loss_id g),
                     (''train/loss_gen_total'', loss_gen_total g)])))"

subsection \<open>train.py: evaluate_epoch\<close>

text \<open>
  The FID metric object: its accumulated state, its three methods as given by its
  library, and the calls made to it so far. \<^verbatim>\<open>compute\<close> may raise.
\<close>

datatype fid_call = Reset | Update bool | Compute

record ('img, 'acc) fid_metric =
  fid_acc :: 'acc
  fid_calls :: "fid_call list"
  reset_impl :: "'acc \<Rightarrow> 'acc"
  update_impl :: "'img \<Rightarrow> bool \<Rightarrow> 'acc \<Rightarrow> 'acc"
  compute_impl :: "'acc \<Rightarrow> py_error + real"

definition fid_reset :: "('img, 'acc) fid_metric \<Rightarrow> ('img, 'acc) fid_metric" where
  "fid_reset m = m\<lparr>fid_acc := reset_impl m (fid_acc m), fid_calls := fid_calls m @ [Reset]\<rparr>"

definition fid_update :: "'img \<Rightarrow> bool \<Rightarrow> ('img, 'acc) fid_metric \<Rightarrow> ('img, 'acc) fid_metric" where
  "fid_update imgs is_real m =
     m\<lparr>fid_acc := update_impl m imgs is_real (fid_acc m),
       fid_calls := fid_calls m @ [Update is_real]\<rparr>"

definition fid_compute :: "('img, 'acc) fid_metric \<Rightarrow> (py_error + real) \<times> ('img, 'acc) fid_metric" where
  "fid_compute m = (compute_impl m (fid_acc m), m\<lparr>fid_calls := fid_calls m @ [Compute]\<rparr>)"

text \<open>
  The metrics dictionary, in insertion order. Every key that is added to or assigned is
  one of the eight keys the dictionary starts with.
\<close>

type_synonym metrics = "(string \<times> real) list"

definition initial_metrics :: "string \<Rightarrow> metrics" where
  "initial_metrics split =
     [(split @ ''/loss_DX'', 0), (split @ ''/loss_DY'', 0), (split @ ''/loss_f_adv'', 0),
      (split @ ''/loss_g_adv'', 0), (split @ ''/loss_cyc'', 0), (split @ ''/loss_id'', 0),
      (split @ ''/loss_gen_total'', 0), (split @ ''/fid_val'', 0)]"

definition dict_add :: "string \<Rightarrow> real \<Rightarrow> metrics \<Rightarrow> metrics" where
  "dict_add k v m = map (\<lambda>(k', a). (k', if k' = k then a + v else a)) m"

definition dict_set :: "string \<Rightarrow> real \<Rightarrow> metrics \<Rightarrow> metrics" where
  "dict_set k v m = map (\<lambda>(k', a). (k', if k' = k then v else a)) m"

text \<open>The body of \<^verbatim>\<open>for x, y in tqdm(loader)\<close>.\<close>

definition evaluate_batch ::
  "('img, 'lg) nets \<Rightarrow> ('img, 'lg) torch_ops \<Rightarrow> loss_weights \<Rightarrow> string
     \<Rightarrow> metrics \<times> nat \<times> ('img, 'acc) fid_metric \<Rightarrow> 'img \<times> 'img
     \<Rightarrow> metrics \<times> nat \<times> ('img, 'acc) fid_metric" where
  "evaluate_batch n t w split st b =
     (case (st, b) of ((metrics, n_batches, fid), (x, y)) \<Rightarrow>
       (let g = generator_forward n t w x y;
            loss_DX = discriminator_loss t (net_DX n) x (fake_x g);
            loss_DY = discriminator_loss t (net_DY n) y (fake_y g);
            fid1 = fid_update (unit_range t y) True fid;
            fid2 = fid_update (unit_range t (fake_y g)) False fid1;
            m1 = dict_add (split @ ''/loss_DX'') loss_DX metrics;
            m2 = dict_add (split @ ''/loss_DY'') loss_DY m1;
            m3 = dict_add (split @ ''/loss_f_adv'') (loss_f_adv g) m2;
            m4 = dict_add (split @ ''/loss_g_adv'') (loss_g_adv g) m3;
            m5 = dict_add (split @ ''/loss_cyc'') (loss_cyc g) m4;
            m6 = dict_add (split @ ''/loss_id'') (loss_id g) m5;
            m7 = dict_add (split @ ''/loss_gen_total'') (loss_gen_total g) m6
        in (m7, n_batches + 1, fid2)))"

text \<open>
  The block under \<^verbatim>\<open>torch.no_grad()\<close>: reset, the loop over the batches of the loader,
  compute, and the assignment of the FID value. It yields the metric object and either
  the exception of \<^verbatim>\<open>compute\<close> or the dictionary and the batch count.
\<close>

definition no_grad_block ::
  "('img, 'lg) nets \<Rightarrow> ('img \<times> 'img) list \<Rightarrow> string \<Rightarrow> ('img, 'lg) torch_ops \<Rightarrow> loss_weights
     \<Rightarrow> ('img, 'acc) fid_metric \<Rightarrow> ('img, 'acc) fid_metric \<times> (py_error + metrics \<times> nat)" where
  "no_grad_block n loader split t w fid_metric =
     (case foldl (evaluate_batch n t w split)
             (initial_metrics split, 0, fid_reset fid_metric) loader of
        (metrics, n_batches, fid1) \<Rightarrow>
          (case fid_compute fid1 of
             (Inl e, fid2) \<Rightarrow> (fid2, Inl e)
           | (Inr fid_val, fid2) \<Rightarrow>
               (fid2, Inr (dict_set (split @ ''/fid_val'') fid_val metrics, n_batches))))"

text \<open>
  \<^verbatim>\<open>for k in metrics: metrics[k] /= n_batches\<close>. Dividing a float by the integer zero
  raises \<^verbatim>\<open>ZeroDivisionError\<close>, at the first key.
\<close>

fun per_batch_average :: "metrics \<Rightarrow> nat \<Rightarrow> py_error + metrics" where
  "per_batch_average [] n_batches = Inr []"
| "per_batch_average ((k, v) # rest) n_batches =
     (if n_batches = 0 then Inl ZeroDivisionError
      else (case per_batch_average rest n_batches of
              Inl e \<Rightarrow> Inl e
            | Inr rest' \<Rightarrow> Inr ((k, v / real n_batches) # rest')))"

definition evaluate_epoch ::
  "('img, 'lg) nets \<Rightarrow> ('img \<times> 'img) list \<Rightarrow> string \<Rightarrow> ('img, 'lg) torch_ops \<Rightarrow> loss_weights
     \<Rightarrow> ('img, 'acc) fid_metric \<Rightarrow> ('img, 'acc) fid_metric \<times> (py_error + metrics)" where
  "evaluate_epoch n loader split t w fid_metric =
     (case no_grad_block n loader split t w fid_metric of
        (fid', Inl e) \<Rightarrow> (fid', Inl e)
      | (fid', Inr (metrics, n_batches)) \<Rightarrow> (fid', per_batch_average metrics n_batches))"

text \<open>
  Examples: images and logits are reals, the generators shift and the discriminators
  scale their input; the example FID object counts its updates and computes one and a
  half times the count.
\<close>

definition example_nets :: "(real, real) nets" where
  "example_nets =
     \<lparr>net_G = (\<lambda>x. x + 1), net_F = (\<lambda>y. y - 2), net_DX = (\<lambda>x. x / 2), net_DY = (\<lambda>y. 2 * y)\<rparr>"

definition example_ops :: "(real, real) torch_ops" where
  "example_ops =
     \<lparr>mse = (\<lambda>a b. (a - b) * (a - b)), l1 = (\<lambda>a b. \<bar>a - b\<bar>), ones_like = (\<lambda>_. 1),
      zeros_like = (\<lambda>_. 0), unit_range = (\<lambda>t. t * 0.5 + 0.5)\<rparr>"

definition example_weights :: loss_weights where
  "example_weights = \<lparr>lambda_adv = 2, lambda_cyc = 4, lambda_id = 0.5\<rparr>"

definition example_fid :: "(real, nat) fid_metric" where
  "example_fid =
     \<lparr>fid_acc = 7, fid_calls = [], reset_impl = (\<lambda>_. 0), update_impl = (\<lambda>_ _ k. Suc k),
      compute_impl = (\<lambda>k. Inr (3 / 2 * real k))\<rparr>"

definition example_loader :: "(real \<times> real) list" where
  "example_loader = [(0, 1), (2, 4)]"

section \<open>Properties\<close>

subsection \<open>Age buckets and data failures\<close>

lemma nth_Cons_shift: "Suc i \<le> j \<Longrightarrow> (f # fs) ! (j - i) = fs ! (j - Suc i)"
  by (simp add: Suc_diff_le)

lemma bucket_step:
  assumes IH: "(j \<in> A') = (j \<in> A0 \<or> (Suc i \<le> j \<and> j < Suc i + length fs \<and> P (fs ! (j - Suc i))))"
    and A0: "(j \<in> A0) = (j \<in> A \<or> (j = i \<and> P f))"
  shows "(j \<in> A') = (j \<in> A \<or> (i \<le> j \<and> j < i + length (f # fs) \<and> P ((f # fs) ! (j - i))))"
proof (cases "j = i")
  case True
  then show ?thesis using IH A0 by simp
next
  case False
  show ?thesis
  proof (cases "Suc i \<le> j")
    case True
    then show ?thesis using IH A0 False nth_Cons_shift [OF True, of f fs] by simp
  next
    case False
    then have "j < i" using \<open>j \<noteq> i\<close> by simp
    then show ?thesis using IH A0 by simp
  qed
qed

lemma bucket_ages_young:
  "bucket_ages h ymax omin i fs ys os = Inr (ys', os') \<Longrightarrow>
   (j \<in> set ys') =
     (j \<in> set ys \<or> (i \<le> j \<and> j < i + length fs \<and>
        (\<exists>a. py_int h (first_field (fs ! (j - i))) = Some a \<and> a \<le> ymax \<and> 18 \<le> a)))"
proof (induction fs arbitrary: i ys os)
  case Nil
  then show ?case by auto
next
  case (Cons f fs)
  then obtain a where a: "py_int h (first_field f) = Some a"
    by (cases "py_int h (first_field f)") auto
  define P where "P = (\<lambda>f. \<exists>a. py_int h (first_field f) = Some a \<and> a \<le> ymax \<and> 18 \<le> a)"
  have Pf: "P f = (a \<le> ymax \<and> 18 \<le> a)"
    by (simp add: P_def a)
  from Cons.prems a obtain ys2 os2 where
    rec: "bucket_ages h ymax omin (Suc i) fs ys2 os2 = Inr (ys', os')" and
    ys2: "ys2 = (if a \<le> ymax \<and> 18 \<le> a then ys @ [i] else ys)"
    by (simp split: if_splits)
  have "(j \<in> set ys') =
      (j \<in> set ys2 \<or> (Suc i \<le> j \<and> j < Suc i + length fs \<and> P (fs ! (j - Suc i))))"
    using Cons.IH [OF rec] by (simp only: P_def)
  moreover have "(j \<in> set ys2) = (j \<in> set ys \<or> (j = i \<and> P f))"
    by (auto simp: ys2 Pf)
  ultimately have "(j \<in> set ys') =
      (j \<in> set ys \<or> (i \<le> j \<and> j < i + length (f # fs) \<and> P ((f # fs) ! (j - i))))"
    by (rule bucket_step)
  then show ?case by (simp only: P_def)
qed

lemma bucket_ages_old:
  "bucket_ages h ymax omin i fs ys os = Inr (ys', os') \<Longrightarrow>
   (j \<in> set os') =
     (j \<in> set os \<or> (i \<le> j \<and> j < i + length fs \<and>
        (\<exists>a. py_int h (first_field (fs ! (j - i))) = Some a \<and>
             \<not> (a \<le> ymax \<and> 18 \<le> a) \<and> omin \<le> a)))"
proof (induction fs arbitrary: i ys os)
  case Nil
  then show ?case by auto
next
  case (Cons f fs)
  then obtain a where a: "py_int h (first_field f) = Some a"
    by (cases "py_int h (first_field f)") auto
  define P where "P = (\<lambda>f. \<exists>a. py_int h (first_field f) = Some a \<and>
         \<not> (a \<le> ymax \<and> 18 \<le> a) \<and> omin \<le> a)"
  have Pf: "P f = (\<not> (a \<le> ymax \<and> 18 \<le> a) \<and> omin \<le> a)"
    by (simp add: P_def a)
  from Cons.prems a obtain ys2 os2 where
    rec: "bucket_ages h ymax omin (Suc i) fs ys2 os2 = Inr (ys', os')" and
    os2: "os2 = (if \<not> (a \<le> ymax \<and> 18 \<le> a) \<and> omin \<le> a then os @ [i] else os)"
    by (simp split: if_splits)
  have "(j \<in> set os') =
      (j \<in> set os2 \<or> (Suc i \<le> j \<and> j < Suc i + length fs \<and> P (fs ! (j - Suc i))))"
    using Cons.IH [OF rec] by (simp only: P_def)
  moreover have "(j \<in> set os2) = (j \<in> set os \<or> (j = i \<and> P f))"
    by (auto simp: os2 Pf)
  ultimately have "(j \<in> set os') =
      (j \<in> set os \<or> (i \<le> j \<and> j < i + length (f # fs) \<and> P ((f # fs) ! (j - i))))"
    by (rule bucket_step)
  then show ?case by (simp only: P_def)
qed


lemma split_indices_subset:
  assumes "split_indices h idxs rng = Inr (parts, rng')" and "map_of parts s = Some part"
  shows "set part \<subseteq> set idxs"
proof -
  obtain perm r where pr: "randperm h (length idxs) rng = (perm, r)"
    by (cases "randperm h (length idxs) rng")
  from assms(1) pr have ok: "list_all (\<lambda>p. p < length idxs) perm"
    by (auto simp: split_indices_def split: if_splits)
  define shuffled where "shuffled = map (\<lambda>p. idxs ! p) perm"
  have sub: "set shuffled \<subseteq> set idxs"
    using ok by (auto simp: shuffled_def list_all_iff)
  from assms(1) pr ok have parts:
    "parts = [(''train'', take ((4 * length shuffled) div 5) shuffled),
              (''valid'', drop ((4 * length shuffled) div 5) (take ((9 * length shuffled) div 10) shuffled)),
              (''test'', drop ((9 * length shuffled) div 10) shuffled)]"
    by (simp add: split_indices_def shuffled_def Let_def)
  from assms(2) have "part = take ((4 * length shuffled) div 5) shuffled
      \<or> part = drop ((4 * length shuffled) div 5) (take ((9 * length shuffled) div 10) shuffled)
      \<or> part = drop ((9 * length shuffled) div 10) shuffled"
    unfolding parts by (auto split: if_splits)
  then have "set part \<subseteq> set shuffled"
    by (auto dest: in_set_takeD in_set_dropD)
  with sub show ?thesis by blast
qed

lemma make_unpaired_loader_subsets:
  assumes "make_unpaired_loader h jpgs split bsz sd ymax omin = Inr ld"
  shows "\<exists>files young_idx old_idx.
           UTKFace_init jpgs = Inr files \<and>
           bucket_ages h ymax omin 0 files [] [] = Inr (young_idx, old_idx) \<and>
           set (young_ds ld) \<subseteq> set young_idx \<and> set (old_ds ld) \<subseteq> set old_idx"
  using assms
  by (auto simp: make_unpaired_loader_def Let_def
      split: sum.splits prod.splits if_splits option.splits
      dest!: split_indices_subset in_set_takeD)

lemma bucket_ages_error:
  "bucket_ages h ymax omin i fs ys os = Inl e \<Longrightarrow> e = ValueError"
  by (induction fs arbitrary: i ys os) (auto split: option.splits if_splits)

lemma sort_Nil_iff: "sort xs = [] \<longleftrightarrow> xs = []"
  using length_sort [of "\<lambda>x. x" xs] by (metis length_0_conv)

lemma UTKFace_init_nonempty: "jpgs \<noteq> [] \<Longrightarrow> UTKFace_init jpgs = Inr (sort jpgs)"
  by (simp add: UTKFace_init_def Let_def sort_Nil_iff)

lemma make_unpaired_loader_no_files:
  "make_unpaired_loader h [] split bsz sd ymax omin = Inl FileNotFoundError"
  by (simp add: make_unpaired_loader_def UTKFace_init_def)

lemma make_unpaired_loader_empty_bucket:
  assumes ne: "jpgs \<noteq> []"
    and empty: "\<not> (\<exists>f\<in>set jpgs. \<exists>a. py_int h (first_field f) = Some a \<and> 18 \<le> a \<and> a \<le> 28) \<or>
                \<not> (\<exists>f\<in>set jpgs. \<exists>a. py_int h (first_field f) = Some a \<and> 40 \<le> a)"
  shows "make_unpaired_loader h jpgs split bsz sd default_young_max default_old_min = Inl ValueError"
proof (cases "bucket_ages h default_young_max default_old_min 0 (sort jpgs) [] []")
  case (Inl e)
  then have "e = ValueError" by (rule bucket_ages_error)
  with Inl show ?thesis
    by (simp add: make_unpaired_loader_def UTKFace_init_nonempty [OF ne])
next
  case (Inr p)
  obtain ys os where p: "p = (ys, os)" by (cases p)
  note b = Inr [unfolded p]
  have mem: "\<And>j. j < length (sort jpgs) \<Longrightarrow> sort jpgs ! j \<in> set jpgs"
    using nth_mem [of _ "sort jpgs"] by simp
  have "ys = [] \<or> os = []"
  proof (rule ccontr)
    assume "\<not> (ys = [] \<or> os = [])"
    then obtain j k where j: "j \<in> set ys" and k: "k \<in> set os"
      by (cases ys; cases os) auto
    from j bucket_ages_young [OF b, of j]
    have "\<exists>f\<in>set jpgs. \<exists>a. py_int h (first_field f) = Some a \<and> 18 \<le> a \<and> a \<le> 28"
      using mem [of j] by (auto simp: default_young_max_def)
    moreover from k bucket_ages_old [OF b, of k]
    have "\<exists>f\<in>set jpgs. \<exists>a. py_int h (first_field f) = Some a \<and> 40 \<le> a"
      using mem [of k] by (auto simp: default_old_min_def)
    ultimately show False using empty by blast
  qed
  then show ?thesis
    using b by (auto simp: make_unpaired_loader_def UTKFace_init_nonempty [OF ne])
qed

text \<open>
  Claim C8. When the directory holds no image file, or no file has an age in the young
  range 18..28, or none has an age of 40 or more, the run raises during data
  preparation: \<^verbatim>\<open>FileNotFoundError\<close> in the first case and \<^verbatim>\<open>ValueError\<close> otherwise.
  \<^verbatim>\<open>make_unpaired_loader\<close> has been called once, for the train split, and is not called
  again; \<^verbatim>\<open>initialize_models\<close> has not been called.
\<close>

theorem data_failure_before_models:
  assumes "jpgs = [] \<or>
           \<not> (\<exists>f\<in>set jpgs. \<exists>a. py_int h (first_field f) = Some a \<and> 18 \<le> a \<and> a \<le> 28) \<or>
           \<not> (\<exists>f\<in>set jpgs. \<exists>a. py_int h (first_field f) = Some a \<and> 40 \<le> a)"
  shows "main_startup h c jpgs =
           ([MakeUnpairedLoader ''train''],
            Inl (if jpgs = [] then FileNotFoundError else ValueError))"
proof (cases "jpgs = []")
  case True
  then show ?thesis
    by (simp add: main_startup_def prepare_dataset_def make_unpaired_loader_no_files)
next
  case False
  with assms have "make_unpaired_loader h jpgs ''train'' (train_batch_size c) (seed c)
      default_young_max default_old_min = Inl ValueError"
    by (intro make_unpaired_loader_empty_bucket) auto
  with False show ?thesis
    by (simp add: main_startup_def prepare_dataset_def)
qed

text \<open>
  Claim C10. With the default thresholds, the file at position \<open>i\<close> whose age parses to
  \<open>a\<close> is in the young index list exactly when \<open>18 \<le> a \<le> 28\<close> and in the old index
  list exactly when \<open>40 \<le> a\<close>. The loader of any split draws its young items from the
  first and its old items from the second, so a file with \<open>a < 18\<close> or \<open>28 < a < 40\<close>
  is in no split.
\<close>

theorem age_domains:
  assumes init: "UTKFace_init jpgs = Inr files"
    and b: "bucket_ages h default_young_max default_old_min 0 files [] [] = Inr (young_idx, old_idx)"
    and i: "i < length files"
    and a: "py_int h (first_field (files ! i)) = Some a"
  shows "(i \<in> set young_idx \<longleftrightarrow> 18 \<le> a \<and> a \<le> 28) \<and>
         (i \<in> set old_idx \<longleftrightarrow> 40 \<le> a) \<and>
         (\<forall>split bsz sd ld.
            make_unpaired_loader h jpgs split bsz sd default_young_max default_old_min = Inr ld \<longrightarrow>
            (i \<in> set (young_ds ld) \<longrightarrow> 18 \<le> a \<and> a \<le> 28) \<and>
            (i \<in> set (old_ds ld) \<longrightarrow> 40 \<le> a) \<and>
            (a < 18 \<or> (28 < a \<and> a < 40) \<longrightarrow> i \<notin> set (young_ds ld) \<and> i \<notin> set (old_ds ld)))"
proof -
  have y: "i \<in> set young_idx \<longleftrightarrow> 18 \<le> a \<and> a \<le> 28"
    using bucket_ages_young [OF b, of i] i a by (auto simp: default_young_max_def)
  have o: "i \<in> set old_idx \<longleftrightarrow> 40 \<le> a"
    using bucket_ages_old [OF b, of i] i a
    by (auto simp: default_young_max_def default_old_min_def)
  have l: "(i \<in> set (young_ds ld) \<longrightarrow> 18 \<le> a \<and> a \<le> 28) \<and>
           (i \<in> set (old_ds ld) \<longrightarrow> 40 \<le> a) \<and>
           (a < 18 \<or> (28 < a \<and> a < 40) \<longrightarrow> i \<notin> set (young_ds ld) \<and> i \<notin> set (old_ds ld))"
    if "make_unpaired_loader h jpgs split bsz sd default_young_max default_old_min = Inr ld"
    for split bsz sd ld
  proof -
    from make_unpaired_loader_subsets [OF that] init b
    have "set (young_ds ld) \<subseteq> set young_idx" and "set (old_ds ld) \<subseteq> set old_idx"
      by auto
    with y o show ?thesis by auto
  qed
  from y o l show ?thesis by blast
qed


theorem data_failure_before_models_witness:
  "main_startup example_host example_cfg [] =
     ([MakeUnpairedLoader ''train''], Inl FileNotFoundError) \<and>
   \<not> (\<exists>f\<in>set [''30_0_0.jpg'', ''25_1_2.jpg''].
        \<exists>a. py_int example_host (first_field f) = Some a \<and> 40 \<le> a) \<and>
   main_startup example_host example_cfg [''30_0_0.jpg'', ''25_1_2.jpg''] =
     ([MakeUnpairedLoader ''train''], Inl ValueError)"
proof -
  have p1: "py_int example_host (first_field ''30_0_0.jpg'') = Some 30"
    by code_simp
  have p2: "py_int example_host (first_field ''25_1_2.jpg'') = Some 25"
    by code_simp
  have h: "\<not> (\<exists>f\<in>set [''30_0_0.jpg'', ''25_1_2.jpg''].
        \<exists>a. py_int example_host (first_field f) = Some a \<and> 40 \<le> a)"
    by (simp add: p1 p2)
  show ?thesis
    using data_failure_before_models [of "[]" example_host example_cfg]
      data_failure_before_models [of "[''30_0_0.jpg'', ''25_1_2.jpg'']" example_host example_cfg]
      h
    by simp
qed

theorem age_domains_witness:
  "UTKFace_init example_jpgs =
     Inr [''10_0_0.jpg'', ''21_1_2.jpg'', ''25_0_1.jpg'', ''30_0_0.jpg'', ''45_1_0.jpg'', ''61_1_3.jpg''] \<and>
   bucket_ages example_host default_young_max default_old_min 0
     [''10_0_0.jpg'', ''21_1_2.jpg'', ''25_0_1.jpg'', ''30_0_0.jpg'', ''45_1_0.jpg'', ''61_1_3.jpg''] [] [] =
     Inr ([1, 2], [4, 5]) \<and>
   py_int example_host (first_field ''30_0_0.jpg'') = Some 30 \<and>
   (3::nat) \<notin> set [1, 2] \<and> (3::nat) \<notin> set [4, 5] \<and>
   make_unpaired_loader example_host example_jpgs ''test'' 8 42 default_young_max default_old_min =
     Inr \<lparr>young_ds = [2], old_ds = [5], batch_size = 8, shuffle = False, drop_last = False\<rparr> \<and>
   (3::nat) \<notin> set (young_ds \<lparr>young_ds = [2], old_ds = [5], batch_size = 8, shuffle = False, drop_last = False\<rparr>)"
proof -
  let ?files = "[''10_0_0.jpg'', ''21_1_2.jpg'', ''25_0_1.jpg'', ''30_0_0.jpg'', ''45_1_0.jpg'', ''61_1_3.jpg'']"
  have init: "UTKFace_init example_jpgs = Inr ?files"
    by code_simp
  have b: "bucket_ages example_host default_young_max default_old_min 0 ?files [] [] =
      Inr ([1, 2], [4, 5])"
    by code_simp
  have i: "3 < length ?files"
    by simp
  have a: "py_int example_host (first_field (?files ! 3)) = Some 30"
    by code_simp
  have ld: "make_unpaired_loader example_host example_jpgs ''test'' 8 42
      default_young_max default_old_min =
      Inr \<lparr>young_ds = [2], old_ds = [5], batch_size = 8, shuffle = False, drop_last = False\<rparr>"
    by code_simp
  show ?thesis
    using age_domains [OF init b i a] init b a ld by simp
qed

subsection \<open>The learning-rate schedule\<close>

lemma lr_lambda_decay:
  assumes "1 \<le> N" and "N div 2 \<le> e"
  shows "lr_lambda N e = Inr (max 0 (real_of_int (N - e) / real_of_int (N - N div 2)))"
  using assms by (simp add: lr_lambda_def Let_def)

text \<open>
  Claim C5. For a total of \<open>N\<close> epochs and an epoch index between 1 and \<open>N\<close>, the
  multiplier is 1 while the index is below \<open>N div 2\<close>; from \<open>N div 2\<close> on it does not
  increase as the index grows up to \<open>N\<close>; at \<open>N\<close> it is 0; and the four schedulers
  that \<^verbatim>\<open>make_schedulers\<close> returns all carry this one function.
\<close>

theorem schedule_shape:
  assumes lo: "1 \<le> epoch" and hi: "epoch \<le> N" and c: "num_train_epochs c = N"
  shows "(epoch < N div 2 \<longrightarrow> lr_lambda N epoch = Inr 1) \<and>
         (\<forall>e2. N div 2 \<le> epoch \<and> epoch \<le> e2 \<and> e2 \<le> N \<longrightarrow>
            (\<exists>m1 m2. lr_lambda N epoch = Inr m1 \<and> lr_lambda N e2 = Inr m2 \<and> m2 \<le> m1)) \<and>
         lr_lambda N N = Inr 0 \<and>
         (case make_schedulers c of
            (sched_G, sched_F, sched_DX, sched_DY) \<Rightarrow>
              sched_lr_lambda sched_G = lr_lambda N \<and> sched_lr_lambda sched_F = lr_lambda N \<and>
              sched_lr_lambda sched_DX = lr_lambda N \<and> sched_lr_lambda sched_DY = lr_lambda N)"
proof -
  from lo hi have N: "1 \<le> N" by simp
  then have pos: "0 < real_of_int (N - N div 2)" by simp
  have one: "epoch < N div 2 \<longrightarrow> lr_lambda N epoch = Inr 1"
    by (simp add: lr_lambda_def Let_def)
  have mono: "\<exists>m1 m2. lr_lambda N epoch = Inr m1 \<and> lr_lambda N e2 = Inr m2 \<and> m2 \<le> m1"
    if "N div 2 \<le> epoch" "epoch \<le> e2" for e2
  proof -
    from that have "real_of_int (N - e2) \<le> real_of_int (N - epoch)" by simp
    then have "real_of_int (N - e2) / real_of_int (N - N div 2)
        \<le> real_of_int (N - epoch) / real_of_int (N - N div 2)"
      using pos by (simp only: divide_right_mono less_imp_le)
    then have "max 0 (real_of_int (N - e2) / real_of_int (N - N div 2))
        \<le> max 0 (real_of_int (N - epoch) / real_of_int (N - N div 2))"
      by (rule max.mono [OF order_refl])
    moreover from that have "N div 2 \<le> e2" by simp
    ultimately show ?thesis
      using lr_lambda_decay [OF N that(1)] lr_lambda_decay [OF N \<open>N div 2 \<le> e2\<close>] by simp
  qed
  have zero: "lr_lambda N N = Inr 0"
    using lr_lambda_decay [OF N, of N] N by simp
  have same: "case make_schedulers c of
            (sched_G, sched_F, sched_DX, sched_DY) \<Rightarrow>
              sched_lr_lambda sched_G = lr_lambda N \<and> sched_lr_lambda sched_F = lr_lambda N \<and>
              sched_lr_lambda sched_DX = lr_lambda N \<and> sched_lr_lambda sched_DY = lr_lambda N"
    by (simp add: make_schedulers_def c)
  from one mono zero same show ?thesis by blast
qed

theorem schedule_shape_witness:
  "lr_lambda 4 1 = Inr 1 \<and>
   lr_lambda 4 2 = Inr 1 \<and> lr_lambda 4 3 = Inr (1 / 2) \<and> lr_lambda 4 4 = Inr 0 \<and>
   sched_lr_lambda (fst (make_schedulers example_cfg)) = lr_lambda 4"
proof -
  have c: "num_train_epochs example_cfg = 4"
    by (simp add: example_cfg_def)
  have v: "lr_lambda 4 3 = Inr (1 / 2)"
    by (simp add: lr_lambda_def)
  show ?thesis
    using schedule_shape [of 1 4 example_cfg, OF _ _ c]
      schedule_shape [of 2 4 example_cfg, OF _ _ c] v
    by (auto simp: lr_lambda_def split: prod.splits)
qed

subsection \<open>Checkpoints of the epoch loop\<close>

lemma run_epochs_all_return:
  "(\<And>e. e \<in> set es \<Longrightarrow> perform_epoch e = Inr (fid e)) \<Longrightarrow>
   run_epochs c rn perform_epoch es st =
     (foldl (\<lambda>s e. epoch_checkpoints c rn e (fid e) s) st es, None)"
  by (induction es arbitrary: st) simp_all

lemma upto_nat_Suc: "[1..int (Suc n)] = [1..int n] @ [int n + 1]"
  using upto_rec2 [of 1 "int n + 1"] by (simp add: add.commute)

lemma upto_nat: "[1..N] = [1..int (nat N)]"
  by (cases "0 \<le> N") simp_all

lemma epoch_best_fid:
  "below_best x (best_fid (epoch_checkpoints c rn e f st)) \<longleftrightarrow>
     below_best x (best_fid st) \<and> x < f"
  by (cases "best_fid st")
     (auto simp: epoch_checkpoints_def below_best_def save_checkpoint_def archive_ec2_def Let_def)

lemma epoch_events_best:
  "SaveCheckpoint e' ''best'' \<in> set (events (epoch_checkpoints c rn e f st)) \<longleftrightarrow>
     SaveCheckpoint e' ''best'' \<in> set (events st) \<or> (e' = e \<and> below_best f (best_fid st))"
  by (auto simp: epoch_checkpoints_def save_checkpoint_def archive_ec2_def Let_def)

lemma epoch_events_current:
  "SaveCheckpoint e' ''current'' \<in> set (events (epoch_checkpoints c rn e f st)) \<longleftrightarrow>
     SaveCheckpoint e' ''current'' \<in> set (events st) \<or> (e' = e \<and> e mod 5 = 0)"
  by (auto simp: epoch_checkpoints_def save_checkpoint_def archive_ec2_def Let_def)

lemma loop_best_fid:
  "below_best x (best_fid (foldl (\<lambda>s e. epoch_checkpoints c rn e (fid e) s)
       initial_run_state [1..int n])) \<longleftrightarrow>
   (\<forall>e'. 1 \<le> e' \<and> e' \<le> int n \<longrightarrow> x < fid e')"
proof (induction n)
  case 0
  show ?case by (simp add: initial_run_state_def below_best_def)
next
  case (Suc n)
  have "(\<forall>e'. 1 \<le> e' \<and> e' \<le> int (Suc n) \<longrightarrow> x < fid e') \<longleftrightarrow>
        (\<forall>e'. 1 \<le> e' \<and> e' \<le> int n \<longrightarrow> x < fid e') \<and> x < fid (int n + 1)"
  proof -
    have "\<And>e'. e' \<le> int (Suc n) \<longleftrightarrow> e' \<le> int n \<or> e' = int n + 1" by auto
    then show ?thesis by auto
  qed
  with Suc show ?case
    by (simp only: upto_nat_Suc foldl_append foldl.simps epoch_best_fid)
qed

lemma loop_events_best:
  "SaveCheckpoint e ''best'' \<in> set (events (foldl (\<lambda>s e. epoch_checkpoints c rn e (fid e) s)
       initial_run_state [1..int n])) \<longleftrightarrow>
   1 \<le> e \<and> e \<le> int n \<and> (\<forall>e'. 1 \<le> e' \<and> e' < e \<longrightarrow> fid e < fid e')"
proof (induction n)
  case 0
  show ?case by (simp add: initial_run_state_def)
next
  case (Suc n)
  have le: "e \<le> int (Suc n) \<longleftrightarrow> e \<le> int n \<or> e = int n + 1" by auto
  have lt: "\<And>e'. e' < int n + 1 \<longleftrightarrow> e' \<le> int n" by auto
  show ?case
    unfolding upto_nat_Suc foldl_append foldl.simps epoch_events_best loop_best_fid Suc.IH le
    by (auto simp: lt)
qed

lemma loop_events_current:
  "SaveCheckpoint e ''current'' \<in> set (events (foldl (\<lambda>s e. epoch_checkpoints c rn e (fid e) s)
       initial_run_state [1..int n])) \<longleftrightarrow>
   1 \<le> e \<and> e \<le> int n \<and> e mod 5 = 0"
proof (induction n)
  case 0
  show ?case by (simp add: initial_run_state_def)
next
  case (Suc n)
  have le: "e \<le> int (Suc n) \<longleftrightarrow> e \<le> int n \<or> e = int n + 1" by auto
  show ?case
    unfolding upto_nat_Suc foldl_append foldl.simps epoch_events_current Suc.IH le
    by auto
qed

lemma main_epochs_all_return:
  assumes "\<forall>e. 1 \<le> e \<and> e \<le> num_train_epochs c \<longrightarrow> perform_epoch e = Inr (fid e)"
  shows "main_epochs c rn perform_epoch =
     (foldl (\<lambda>s e. epoch_checkpoints c rn e (fid e) s) initial_run_state
        [1..int (nat (num_train_epochs c))], None)"
proof -
  have "run_epochs c rn perform_epoch [1..num_train_epochs c] initial_run_state =
     (foldl (\<lambda>s e. epoch_checkpoints c rn e (fid e) s) initial_run_state
        [1..num_train_epochs c], None)"
    using assms by (intro run_epochs_all_return) simp
  then show ?thesis
    unfolding main_epochs_def using upto_nat [of "num_train_epochs c"] by simp
qed


lemma checkpoint_epochs_append:
  "checkpoint_epochs tag (xs @ ys) = checkpoint_epochs tag xs @ checkpoint_epochs tag ys"
  by (induction tag xs rule: checkpoint_epochs.induct) simp_all

lemma epoch_best_fid_value:
  "best_fid (epoch_checkpoints c rn e f st) =
     (if below_best f (best_fid st) then Some f else best_fid st)"
  by (simp add: epoch_checkpoints_def save_checkpoint_def archive_ec2_def Let_def)

lemma epoch_checkpoint_epochs_best:
  "checkpoint_epochs ''best'' (events (epoch_checkpoints c rn e f st)) =
     checkpoint_epochs ''best'' (events st) @ (if below_best f (best_fid st) then [e] else [])"
  by (simp add: epoch_checkpoints_def save_checkpoint_def archive_ec2_def Let_def
      checkpoint_epochs_append)

lemma epoch_checkpoint_epochs_current:
  "checkpoint_epochs ''current'' (events (epoch_checkpoints c rn e f st)) =
     checkpoint_epochs ''current'' (events st) @ (if e mod 5 = 0 then [e] else [])"
  by (simp add: epoch_checkpoints_def save_checkpoint_def archive_ec2_def Let_def
      checkpoint_epochs_append)

lemma epoch_checkpoints_best_file:
  "checkpoints (epoch_checkpoints c rn e f st) ''best'' =
     (if below_best f (best_fid st) then Some e else checkpoints st ''best'')"
  by (simp add: epoch_checkpoints_def save_checkpoint_def archive_ec2_def Let_def)

lemma epoch_checkpoints_current_file:
  "checkpoints (epoch_checkpoints c rn e f st) ''current'' =
     (if e mod 5 = 0 then Some e else checkpoints st ''current'')"
  by (simp add: epoch_checkpoints_def save_checkpoint_def archive_ec2_def Let_def)

lemma upto_1_4: "[1..4::int] = [1, 2, 3, 4]"
  by code_simp

lemma upto_1_2: "[1..2::int] = [1, 2]"
  by code_simp

text \<open>
  Claim C6. In a run whose epochs all return, with \<open>fid e\<close> the validation FID of
  epoch \<open>e\<close>, a \<^verbatim>\<open>best\<close> checkpoint is written in epoch \<open>e\<close> exactly when \<open>fid e\<close> is
  strictly below the FID of every earlier epoch; the first epoch has no earlier one and
  so always writes it. For four epochs with the FIDs 5, 3, 4, 2 the \<^verbatim>\<open>best\<close>
  checkpoint is written at the epochs 1, 2 and 4, and at the end it holds epoch 4.
\<close>

theorem best_checkpoint_policy:
  assumes ret: "\<forall>e. 1 \<le> e \<and> e \<le> num_train_epochs c \<longrightarrow> perform_epoch e = Inr (fid e)"
  shows "(SaveCheckpoint e ''best'' \<in> set (events (fst (main_epochs c rn perform_epoch))) \<longleftrightarrow>
            1 \<le> e \<and> e \<le> num_train_epochs c \<and> (\<forall>e'. 1 \<le> e' \<and> e' < e \<longrightarrow> fid e < fid e')) \<and>
         (num_train_epochs c = 4 \<and> fid 1 = 5 \<and> fid 2 = 3 \<and> fid 3 = 4 \<and> fid 4 = 2 \<longrightarrow>
            checkpoint_epochs ''best'' (events (fst (main_epochs c rn perform_epoch))) = [1, 2, 4] \<and>
            checkpoints (fst (main_epochs c rn perform_epoch)) ''best'' = Some 4)"
proof -
  note run = main_epochs_all_return [OF ret, of rn]
  have general: "SaveCheckpoint e ''best'' \<in> set (events (fst (main_epochs c rn perform_epoch))) \<longleftrightarrow>
      1 \<le> e \<and> e \<le> num_train_epochs c \<and> (\<forall>e'. 1 \<le> e' \<and> e' < e \<longrightarrow> fid e < fid e')"
    unfolding run fst_conv loop_events_best by auto
  have example: "checkpoint_epochs ''best'' (events (fst (main_epochs c rn perform_epoch))) = [1, 2, 4] \<and>
      checkpoints (fst (main_epochs c rn perform_epoch)) ''best'' = Some 4"
    if "num_train_epochs c = 4" "fid 1 = 5" "fid 2 = 3" "fid 3 = 4" "fid 4 = 2"
    unfolding run fst_conv
    by (simp add: that upto_1_4 epoch_best_fid_value epoch_checkpoint_epochs_best
        epoch_checkpoints_best_file below_best_def initial_run_state_def)
  from general example show ?thesis by blast
qed

theorem best_checkpoint_policy_witness:
  "SaveCheckpoint 1 ''best'' \<in>
     set (events (fst (main_epochs example_cfg ''run'' (\<lambda>e. Inr (example_val_fid e))))) \<and>
   SaveCheckpoint 3 ''best'' \<notin>
     set (events (fst (main_epochs example_cfg ''run'' (\<lambda>e. Inr (example_val_fid e))))) \<and>
   checkpoint_epochs ''best''
     (events (fst (main_epochs example_cfg ''run'' (\<lambda>e. Inr (example_val_fid e))))) = [1, 2, 4] \<and>
   checkpoints (fst (main_epochs example_cfg ''run'' (\<lambda>e. Inr (example_val_fid e)))) ''best'' = Some 4"
proof -
  have ret: "\<forall>e. 1 \<le> e \<and> e \<le> num_train_epochs example_cfg \<longrightarrow>
      (\<lambda>e. Inr (example_val_fid e) :: py_error + real) e = Inr (example_val_fid e)"
    by simp
  have n: "num_train_epochs example_cfg = 4"
    by (simp add: example_cfg_def)
  have f: "example_val_fid 1 = 5" "example_val_fid 2 = 3" "example_val_fid 3 = 4"
    "example_val_fid 4 = 2"
    by (simp_all add: example_val_fid_def)
  have three: "\<not> (\<forall>e'. 1 \<le> e' \<and> e' < 3 \<longrightarrow> example_val_fid 3 < example_val_fid e')"
  proof
    assume "\<forall>e'. 1 \<le> e' \<and> e' < 3 \<longrightarrow> example_val_fid 3 < example_val_fid e'"
    then have "example_val_fid 3 < example_val_fid 2" by simp
    then show False by (simp add: f)
  qed
  show ?thesis
    using best_checkpoint_policy [where e = 1 and rn = "''run''", OF ret]
      best_checkpoint_policy [where e = 3 and rn = "''run''", OF ret] n f three
    by simp
qed

text \<open>
  Claim C7. In a run whose epochs all return, a \<^verbatim>\<open>current\<close> checkpoint is written in
  epoch \<open>e\<close> exactly when \<open>e\<close> is a multiple of 5, whatever the validation FIDs are;
  a run of two epochs writes none, and no \<^verbatim>\<open>current\<close> file exists at its end.
\<close>

theorem current_checkpoint_policy:
  assumes ret: "\<forall>e. 1 \<le> e \<and> e \<le> num_train_epochs c \<longrightarrow> perform_epoch e = Inr (fid e)"
  shows "(SaveCheckpoint e ''current'' \<in> set (events (fst (main_epochs c rn perform_epoch))) \<longleftrightarrow>
            1 \<le> e \<and> e \<le> num_train_epochs c \<and> e mod 5 = 0) \<and>
         (num_train_epochs c = 2 \<longrightarrow>
            checkpoint_epochs ''current'' (events (fst (main_epochs c rn perform_epoch))) = [] \<and>
            checkpoints (fst (main_epochs c rn perform_epoch)) ''current'' = None)"
proof -
  note run = main_epochs_all_return [OF ret, of rn]
  have general: "SaveCheckpoint e ''current'' \<in> set (events (fst (main_epochs c rn perform_epoch))) \<longleftrightarrow>
      1 \<le> e \<and> e \<le> num_train_epochs c \<and> e mod 5 = 0"
    unfolding run fst_conv loop_events_current by auto
  have two: "checkpoint_epochs ''current'' (events (fst (main_epochs c rn perform_epoch))) = [] \<and>
      checkpoints (fst (main_epochs c rn perform_epoch)) ''current'' = None"
    if "num_train_epochs c = 2"
    unfolding run fst_conv
    by (simp add: that upto_1_2 epoch_checkpoint_epochs_current
        epoch_checkpoints_current_file initial_run_state_def)
  from general two show ?thesis by blast
qed

theorem current_checkpoint_policy_witness:
  "SaveCheckpoint 5 ''current'' \<in>
     set (events (fst (main_epochs (example_cfg\<lparr>num_train_epochs := 7\<rparr>) ''run''
        (\<lambda>e. Inr (example_val_fid e))))) \<and>
   SaveCheckpoint 4 ''current'' \<notin>
     set (events (fst (main_epochs (example_cfg\<lparr>num_train_epochs := 7\<rparr>) ''run''
        (\<lambda>e. Inr (example_val_fid e))))) \<and>
   checkpoint_epochs ''current''
     (events (fst (main_epochs (example_cfg\<lparr>num_train_epochs := 2\<rparr>) ''run''
        (\<lambda>e. Inr (example_val_fid e))))) = [] \<and>
   checkpoints (fst (main_epochs (example_cfg\<lparr>num_train_epochs := 2\<rparr>) ''run''
        (\<lambda>e. Inr (example_val_fid e)))) ''current'' = None"
proof -
  have ret: "\<forall>e. 1 \<le> e \<and> e \<le> num_train_epochs c \<longrightarrow>
      (\<lambda>e. Inr (example_val_fid e) :: py_error + real) e = Inr (example_val_fid e)" for c
    by simp
  show ?thesis
    using current_checkpoint_policy
        [where c = "example_cfg\<lparr>num_train_epochs := 7\<rparr>" and e = 5 and rn = "''run''", OF ret]
      current_checkpoint_policy
        [where c = "example_cfg\<lparr>num_train_epochs := 7\<rparr>" and e = 4 and rn = "''run''", OF ret]
      current_checkpoint_policy
        [where c = "example_cfg\<lparr>num_train_epochs := 2\<rparr>" and e = 0 and rn = "''run''", OF ret]
    by simp
qed

subsection \<open>The evaluation pass\<close>

lemma evaluate_batch_count:
  "fst (snd (foldl (evaluate_batch n t w split) (m, k, fid) loader)) = k + length loader"
proof (induction loader arbitrary: m k fid)
  case Nil
  show ?case by simp
next
  case (Cons b bs)
  obtain m' fid' where "evaluate_batch n t w split (m, k, fid) b = (m', Suc k, fid')"
    by (cases b) (simp add: evaluate_batch_def Let_def)
  then show ?case using Cons.IH [of m' "Suc k" fid'] by simp
qed

lemma evaluate_batch_sums:
  "fst (foldl (evaluate_batch n t w split)
       ([(split @ ''/loss_DX'', a1), (split @ ''/loss_DY'', a2), (split @ ''/loss_f_adv'', a3),
         (split @ ''/loss_g_adv'', a4), (split @ ''/loss_cyc'', a5), (split @ ''/loss_id'', a6),
         (split @ ''/loss_gen_total'', a7), (split @ ''/fid_val'', a8)], k, fid) loader) =
   [(split @ ''/loss_DX'',
       a1 + (\<Sum>(x, y)\<leftarrow>loader. discriminator_loss t (net_DX n) x (fake_x (generator_forward n t w x y)))),
    (split @ ''/loss_DY'',
       a2 + (\<Sum>(x, y)\<leftarrow>loader. discriminator_loss t (net_DY n) y (fake_y (generator_forward n t w x y)))),
    (split @ ''/loss_f_adv'', a3 + (\<Sum>(x, y)\<leftarrow>loader. loss_f_adv (generator_forward n t w x y))),
    (split @ ''/loss_g_adv'', a4 + (\<Sum>(x, y)\<leftarrow>loader. loss_g_adv (generator_forward n t w x y))),
    (split @ ''/loss_cyc'', a5 + (\<Sum>(x, y)\<leftarrow>loader. loss_cyc (generator_forward n t w x y))),
    (split @ ''/loss_id'', a6 + (\<Sum>(x, y)\<leftarrow>loader. loss_id (generator_forward n t w x y))),
    (split @ ''/loss_gen_total'', a7 + (\<Sum>(x, y)\<leftarrow>loader. loss_gen_total (generator_forward n t w x y))),
    (split @ ''/fid_val'', a8)]"
proof (induction loader arbitrary: a1 a2 a3 a4 a5 a6 a7 k fid)
  case Nil
  show ?case by simp
next
  case (Cons b bs)
  obtain x y where b: "b = (x, y)" by (cases b)
  define g where "g = generator_forward n t w x y"
  have step: "evaluate_batch n t w split
       ([(split @ ''/loss_DX'', a1), (split @ ''/loss_DY'', a2), (split @ ''/loss_f_adv'', a3),
         (split @ ''/loss_g_adv'', a4), (split @ ''/loss_cyc'', a5), (split @ ''/loss_id'', a6),
         (split @ ''/loss_gen_total'', a7), (split @ ''/fid_val'', a8)], k, fid) b =
     ([(split @ ''/loss_DX'', a1 + discriminator_loss t (net_DX n) x (fake_x g)),
       (split @ ''/loss_DY'', a2 + discriminator_loss t (net_DY n) y (fake_y g)),
       (split @ ''/loss_f_adv'', a3 + loss_f_adv g),
       (split @ ''/loss_g_adv'', a4 + loss_g_adv g),
       (split @ ''/loss_cyc'', a5 + loss_cyc g),
       (split @ ''/loss_id'', a6 + loss_id g),
       (split @ ''/loss_gen_total'', a7 + loss_gen_total g),
       (split @ ''/fid_val'', a8)], k + 1,
      fid_update (unit_range t (fake_y g)) False (fid_update (unit_range t y) True fid))"
    by (simp add: evaluate_batch_def b g_def [symmetric] dict_add_def Let_def)
  show ?case
    by (simp only: foldl_Cons step Cons.IH) (simp add: b g_def add.assoc)
qed


lemma evaluate_batch_impl:
  "compute_impl (snd (snd (foldl (evaluate_batch n t w split) (m, k, fid) loader))) =
     compute_impl fid"
proof (induction loader arbitrary: m k fid)
  case Nil
  show ?case by simp
next
  case (Cons b bs)
  obtain m' fid' where step: "evaluate_batch n t w split (m, k, fid) b = (m', Suc k, fid')"
    and impl: "compute_impl fid' = compute_impl fid"
    by (cases b) (simp add: evaluate_batch_def Let_def fid_update_def)
  show ?case using Cons.IH [of m' "Suc k" fid'] by (simp add: step impl)
qed

lemma evaluate_epoch_averages:
  assumes ne: "loader \<noteq> []"
    and comp: "compute_impl fid (fid_acc (fst (evaluate_epoch n loader split t w fid))) = Inr v"
  shows "snd (evaluate_epoch n loader split t w fid) =
    Inr [(split @ ''/loss_DX'',
           (\<Sum>(x, y)\<leftarrow>loader. discriminator_loss t (net_DX n) x (fake_x (generator_forward n t w x y)))
             / real (length loader)),
         (split @ ''/loss_DY'',
           (\<Sum>(x, y)\<leftarrow>loader. discriminator_loss t (net_DY n) y (fake_y (generator_forward n t w x y)))
             / real (length loader)),
         (split @ ''/loss_f_adv'',
           (\<Sum>(x, y)\<leftarrow>loader. loss_f_adv (generator_forward n t w x y)) / real (length loader)),
         (split @ ''/loss_g_adv'',
           (\<Sum>(x, y)\<leftarrow>loader. loss_g_adv (generator_forward n t w x y)) / real (length loader)),
         (split @ ''/loss_cyc'',
           (\<Sum>(x, y)\<leftarrow>loader. loss_cyc (generator_forward n t w x y)) / real (length loader)),
         (split @ ''/loss_id'',
           (\<Sum>(x, y)\<leftarrow>loader. loss_id (generator_forward n t w x y)) / real (length loader)),
         (split @ ''/loss_gen_total'',
           (\<Sum>(x, y)\<leftarrow>loader. loss_gen_total (generator_forward n t w x y)) / real (length loader)),
         (split @ ''/fid_val'', v / real (length loader))]"
proof -
  let ?init = "(initial_metrics split, 0::nat, fid_reset fid)"
  obtain m k fid1 where f: "foldl (evaluate_batch n t w split) ?init loader = (m, k, fid1)"
    by (cases "foldl (evaluate_batch n t w split) ?init loader")
  have k: "k = length loader"
    using evaluate_batch_count [of n t w split "initial_metrics split" 0 "fid_reset fid" loader]
    by (simp add: f)
  have "compute_impl fid1 = compute_impl (fid_reset fid)"
    using evaluate_batch_impl [of n t w split "initial_metrics split" 0 "fid_reset fid" loader]
    by (simp add: f)
  then have impl: "compute_impl fid1 = compute_impl fid"
    by (simp add: fid_reset_def)
  have acc: "fid_acc (fst (evaluate_epoch n loader split t w fid)) = fid_acc fid1"
    by (simp add: evaluate_epoch_def no_grad_block_def f fid_compute_def
        split: sum.splits prod.splits)
  from comp have c: "compute_impl fid1 (fid_acc fid1) = Inr v"
    by (simp add: acc impl)
  have m: "m = fst (foldl (evaluate_batch n t w split) ?init loader)"
    by (simp add: f)
  show ?thesis
    unfolding evaluate_epoch_def no_grad_block_def f
    using ne
    by (simp add: fid_compute_def c k m initial_metrics_def evaluate_batch_sums dict_set_def)
qed

lemma fid_update_calls: "fid_calls (fid_update i r m) = fid_calls m @ [Update r]"
  by (simp add: fid_update_def)

lemma evaluate_batch_calls:
  "fid_calls (snd (snd (foldl (evaluate_batch n t w split) (m, k, fid) loader))) =
     fid_calls fid @ concat (map (\<lambda>b. [Update True, Update False]) loader)"
proof (induction loader arbitrary: m k fid)
  case Nil
  show ?case by simp
next
  case (Cons b bs)
  obtain m' fid' where step: "evaluate_batch n t w split (m, k, fid) b = (m', Suc k, fid')"
    and calls: "fid_calls fid' = fid_calls fid @ [Update True, Update False]"
    by (cases b) (simp add: evaluate_batch_def Let_def fid_update_calls)
  show ?case using Cons.IH [of m' "Suc k" fid'] by (simp add: step calls)
qed

lemma fid_compute_calls: "fid_calls (snd (fid_compute m)) = fid_calls m @ [Compute]"
  by (simp add: fid_compute_def)

lemma no_grad_block_calls:
  "fid_calls (fst (no_grad_block n loader split t w fid)) =
     fid_calls fid @ [Reset] @ concat (map (\<lambda>b. [Update True, Update False]) loader) @ [Compute]"
proof -
  obtain m k fid1 where
    f: "foldl (evaluate_batch n t w split) (initial_metrics split, 0, fid_reset fid) loader = (m, k, fid1)"
    by (cases "foldl (evaluate_batch n t w split) (initial_metrics split, 0, fid_reset fid) loader")
  have "fid_calls fid1 = fid_calls (fid_reset fid) @ concat (map (\<lambda>b. [Update True, Update False]) loader)"
    using evaluate_batch_calls [of n t w split "initial_metrics split" 0 "fid_reset fid" loader]
    by (simp add: f)
  then have c: "fid_calls (snd (fid_compute fid1)) =
      fid_calls fid @ [Reset] @ concat (map (\<lambda>b. [Update True, Update False]) loader) @ [Compute]"
    by (simp add: fid_compute_calls fid_reset_def)
  obtain r fid2 where fc: "fid_compute fid1 = (r, fid2)"
    by (cases "fid_compute fid1")
  with c have "fid_calls fid2 =
      fid_calls fid @ [Reset] @ concat (map (\<lambda>b. [Update True, Update False]) loader) @ [Compute]"
    by simp
  then show ?thesis
    by (cases r) (simp_all add: no_grad_block_def f fc)
qed

text \<open>
  Claim C9. The calls an evaluation pass makes to the FID object are, in this order:
  one \<^verbatim>\<open>reset\<close>, then for each batch of the loader one update with the real batch and
  one with the fake batch, then one \<^verbatim>\<open>compute\<close>. So \<^verbatim>\<open>reset\<close> comes once and before
  every batch, and \<^verbatim>\<open>compute\<close> comes once, after the last batch and never between two
  updates. This holds for every loader, the empty one included, and whether or not
  the pass goes on to return a metrics record.
\<close>

theorem fid_call_protocol:
  "fid_calls (fst (evaluate_epoch n loader split t w fid)) =
     fid_calls fid @ [Reset] @ concat (map (\<lambda>b. [Update True, Update False]) loader) @ [Compute]"
proof -
  have "fst (evaluate_epoch n loader split t w fid) = fst (no_grad_block n loader split t w fid)"
    by (simp add: evaluate_epoch_def split: prod.splits sum.splits)
  then show ?thesis by (simp only: no_grad_block_calls)
qed

text \<open>
  Claim C2 does not hold as stated: nothing checks the batch count. On an empty split,
  with an FID object whose \<^verbatim>\<open>compute\<close> returns, the block before the averaging ends
  normally with a batch count of 0, and the exception is the \<^verbatim>\<open>ZeroDivisionError\<close> of
  the division in the averaging loop itself.
\<close>

theorem empty_split_reaches_averaging:
  "snd (no_grad_block example_nets [] ''val'' example_ops example_weights example_fid) =
     Inr (initial_metrics ''val'', 0) \<and>
   per_batch_average (initial_metrics ''val'') 0 = Inl ZeroDivisionError \<and>
   snd (evaluate_epoch example_nets [] ''val'' example_ops example_weights example_fid) =
     Inl ZeroDivisionError"
  by (simp add: evaluate_epoch_def no_grad_block_def fid_compute_def fid_reset_def
      example_fid_def initial_metrics_def dict_set_def)

text \<open>
  Claim C2, amended. An evaluation pass over an empty split returns no metrics record:
  it ends with the exception of \<^verbatim>\<open>compute\<close> when that raises, and otherwise enters the
  averaging loop with a batch count of 0, where the first division raises
  \<^verbatim>\<open>ZeroDivisionError\<close>.
\<close>

theorem empty_split_raises:
  "snd (no_grad_block n [] split t w fid) =
     (case compute_impl fid (reset_impl fid (fid_acc fid)) of
        Inl e \<Rightarrow> Inl e
      | Inr v \<Rightarrow> Inr (dict_set (split @ ''/fid_val'') v (initial_metrics split), 0)) \<and>
   snd (evaluate_epoch n [] split t w fid) =
     (case compute_impl fid (reset_impl fid (fid_acc fid)) of
        Inl e \<Rightarrow> Inl e
      | Inr v \<Rightarrow> Inl ZeroDivisionError)"
  by (simp add: evaluate_epoch_def no_grad_block_def fid_compute_def fid_reset_def
      initial_metrics_def dict_set_def split: sum.splits)

text \<open>
  Claim C1 against the code. On a split of two batches with an FID object whose
  \<^verbatim>\<open>compute\<close> gives 6, the seven loss keys hold their sums over the batches divided by
  2, and the key \<^verbatim>\<open>val/fid_val\<close> holds 3: the averaging loop runs over every key of the
  dictionary and divides the FID value by the batch count as well.
\<close>

theorem fid_value_divided_by_batch_count:
  "snd (evaluate_epoch example_nets example_loader ''val'' example_ops example_weights example_fid) =
     Inr [(''val/loss_DX'', 9 / 16), (''val/loss_DY'', 45 / 2), (''val/loss_f_adv'', 9 / 4),
          (''val/loss_g_adv'', 26), (''val/loss_cyc'', 8), (''val/loss_id'', 3 / 2),
          (''val/loss_gen_total'', 151 / 4), (''val/fid_val'', 3)] \<and>
   compute_impl example_fid
     (fid_acc (fst (evaluate_epoch example_nets example_loader ''val'' example_ops
        example_weights example_fid))) = Inr 6"
  by (simp add: evaluate_epoch_def no_grad_block_def fid_compute_def fid_reset_def fid_update_def
      evaluate_batch_def generator_forward_def discriminator_loss_def dict_add_def dict_set_def
      initial_metrics_def example_nets_def example_ops_def example_weights_def example_fid_def
      example_loader_def Let_def)

subsection \<open>The training step\<close>

lemma zero_grad_params [simp]: "params (zero_grad m s) = params s"
  and zero_grad_opt [simp]: "opt_states (zero_grad m s) = opt_states s"
  and zero_grad_calls [simp]: "calls (zero_grad m s) = calls s @ [ZeroGrad m]"
  and zero_grad_grads: "grads (zero_grad m s) = (grads s)(m := None)"
  by (simp_all add: zero_grad_def)

lemma backward_params [simp]: "params (backward ag ms l s) = params s"
  and backward_opt [simp]: "opt_states (backward ag ms l s) = opt_states s"
  and backward_calls [simp]: "calls (backward ag ms l s) = calls s @ [Backward ms]"
  and backward_grads_other: "m \<notin> set ms \<Longrightarrow> grads (backward ag ms l s) m = grads s m"
  by (simp_all add: backward_def)

lemma clip_params [simp]: "params (clip_grad_norm ag ms mx s) = params s"
  and clip_opt [simp]: "opt_states (clip_grad_norm ag ms mx s) = opt_states s"
  and clip_calls [simp]: "calls (clip_grad_norm ag ms mx s) = calls s @ [ClipGradNorm ms]"
  and clip_grads_other: "m \<notin> set ms \<Longrightarrow> grads (clip_grad_norm ag ms mx s) m = grads s m"
  by (simp_all add: clip_grad_norm_def Let_def)

lemma opt_step_params:
  "params (opt_step ag m s) =
     (params s)(m := snd (adam_step ag (opt_states s m) (params s m) (grads s m)))"
  and opt_step_opt:
  "opt_states (opt_step ag m s) =
     (opt_states s)(m := fst (adam_step ag (opt_states s m) (params s m) (grads s m)))"
  and opt_step_calls [simp]: "calls (opt_step ag m s) = calls s @ [OptStep m]"
  and opt_step_grads [simp]: "grads (opt_step ag m s) = grads s"
  by (simp_all add: opt_step_def split: prod.splits)


lemma update_generators_calls:
  "calls (fst (update_generators ag t w b s)) =
     calls s @ [ZeroGrad Gen_G, ZeroGrad Gen_F, Backward [Gen_G, Gen_F, Disc_DX, Disc_DY],
       ClipGradNorm [Gen_G, Gen_F], OptStep Gen_G, OptStep Gen_F]"
  by (cases b) (simp add: update_generators_def Let_def)

lemma update_discriminators_calls:
  "calls (fst (update_discriminators ag t b fx fy s)) =
     calls s @ [ZeroGrad Disc_DX, Backward [Disc_DX], ClipGradNorm [Disc_DX], OptStep Disc_DX,
       ZeroGrad Disc_DY, Backward [Disc_DY], ClipGradNorm [Disc_DY], OptStep Disc_DY]"
  by (cases b) (simp add: update_discriminators_def Let_def)

lemma update_generators_pass:
  "snd (update_generators ag t w (x, y) s) = generator_forward (nets_at ag (params s)) t w x y"
  by (simp add: update_generators_def Let_def)

lemma update_generators_discs:
  "params (fst (update_generators ag t w b s)) Disc_DX = params s Disc_DX"
  "params (fst (update_generators ag t w b s)) Disc_DY = params s Disc_DY"
  "opt_states (fst (update_generators ag t w b s)) Disc_DX = opt_states s Disc_DX"
  "opt_states (fst (update_generators ag t w b s)) Disc_DY = opt_states s Disc_DY"
  by (cases b; simp add: update_generators_def Let_def opt_step_params opt_step_opt)+

lemma update_generators_params:
  "params (fst (update_generators ag t w (x, y) s)) Gen_G =
     (let dG = gradient ag (\<lambda>p. loss_gen_total
                 (generator_forward (nets_at ag ((params s)(Gen_G := p))) t w x y)) (params s Gen_G);
          dF = gradient ag (\<lambda>p. loss_gen_total
                 (generator_forward (nets_at ag ((params s)(Gen_F := p))) t w x y)) (params s Gen_F);
          c = clip_coef ag [dG, dF] 1
      in snd (adam_step ag (opt_states s Gen_G) (params s Gen_G) (Some (grad_scale ag c dG))))"
  "params (fst (update_generators ag t w (x, y) s)) Gen_F =
     (let dG = gradient ag (\<lambda>p. loss_gen_total
                 (generator_forward (nets_at ag ((params s)(Gen_G := p))) t w x y)) (params s Gen_G);
          dF = gradient ag (\<lambda>p. loss_gen_total
                 (generator_forward (nets_at ag ((params s)(Gen_F := p))) t w x y)) (params s Gen_F);
          c = clip_coef ag [dG, dF] 1
      in snd (adam_step ag (opt_states s Gen_F) (params s Gen_F) (Some (grad_scale ag c dF))))"
  by (simp_all add: update_generators_def Let_def opt_step_params opt_step_opt
      clip_grad_norm_def backward_def zero_grad_def)

lemma update_discriminators_params:
  "params (fst (update_discriminators ag t (x, y) fx fy s)) Disc_DX =
     (let dDX = gradient ag (\<lambda>p. discriminator_loss t (fwd_DX ag p) x fx) (params s Disc_DX)
      in snd (adam_step ag (opt_states s Disc_DX) (params s Disc_DX)
                (Some (grad_scale ag (clip_coef ag [dDX] 1) dDX))))"
  "params (fst (update_discriminators ag t (x, y) fx fy s)) Disc_DY =
     (let dDY = gradient ag (\<lambda>p. discriminator_loss t (fwd_DY ag p) y fy) (params s Disc_DY)
      in snd (adam_step ag (opt_states s Disc_DY) (params s Disc_DY)
                (Some (grad_scale ag (clip_coef ag [dDY] 1) dDY))))"
  by (simp_all add: update_discriminators_def Let_def opt_step_params opt_step_opt
      clip_grad_norm_def backward_def zero_grad_def)

lemma update_discriminators_frame:
  "params (fst (update_discriminators ag t b fx fy s)) Gen_G = params s Gen_G"
  "params (fst (update_discriminators ag t b fx fy s)) Gen_F = params s Gen_F"
  "grads (fst (update_discriminators ag t b fx fy s)) Gen_G = grads s Gen_G"
  "grads (fst (update_discriminators ag t b fx fy s)) Gen_F = grads s Gen_F"
  "opt_states (fst (update_discriminators ag t b fx fy s)) Gen_G = opt_states s Gen_G"
  "opt_states (fst (update_discriminators ag t b fx fy s)) Gen_F = opt_states s Gen_F"
  by (cases b; simp add: update_discriminators_def Let_def opt_step_params opt_step_opt
       backward_grads_other clip_grads_other zero_grad_grads)+

lemma perform_train_step_phases:
  "fst (perform_train_step ag t w b s) =
     fst (update_discriminators ag t b
            (fake_x (snd (update_generators ag t w b s)))
            (fake_y (snd (update_generators ag t w b s)))
            (fst (update_generators ag t w b s)))"
  by (simp add: perform_train_step_def split: prod.splits)

lemma perform_train_step_gen_total:
  "map_of (snd (perform_train_step ag t w (x, y) s)) ''train/loss_gen_total'' =
     Some (loss_gen_total (generator_forward (nets_at ag (params s)) t w x y))"
proof -
  obtain s1 g where ug: "update_generators ag t w (x, y) s = (s1, g)"
    by (cases "update_generators ag t w (x, y) s")
  then have "g = generator_forward (nets_at ag (params s)) t w x y"
    using update_generators_pass [of ag t w x y s] by simp
  then show ?thesis
    by (simp add: perform_train_step_def ug split: prod.splits)
qed

text \<open>
  Claim C3. One step on a batch \<open>(x, y)\<close>, from the state \<open>s\<close> at entry. The generator
  total loss it reports is the one computed with all four parameter sets as they are in
  \<open>s\<close>, the discriminators' included. The calls come in one fixed order: the generator
  phase, ending with the steps of the optimisers of G and F, and then the discriminator
  phase with the steps of DX and of DY; each optimiser steps once. Each module's new
  parameters are one optimiser step away from its parameters in \<open>s\<close>: for G and F
  along the jointly clipped gradient of the generator loss at the parameters of \<open>s\<close>,
  for DX and DY along the clipped gradient of its own loss on the real batch and the
  fake made by the generators of \<open>s\<close>.
\<close>

theorem generators_then_discriminators:
  "(let s' = fst (perform_train_step ag t w (x, y) s);
        metrics = snd (perform_train_step ag t w (x, y) s);
        g = generator_forward (nets_at ag (params s)) t w x y;
        dG = gradient ag (\<lambda>p. loss_gen_total
               (generator_forward (nets_at ag ((params s)(Gen_G := p))) t w x y)) (params s Gen_G);
        dF = gradient ag (\<lambda>p. loss_gen_total
               (generator_forward (nets_at ag ((params s)(Gen_F := p))) t w x y)) (params s Gen_F);
        dDX = gradient ag (\<lambda>p. discriminator_loss t (fwd_DX ag p) x (fake_x g)) (params s Disc_DX);
        dDY = gradient ag (\<lambda>p. discriminator_loss t (fwd_DY ag p) y (fake_y g)) (params s Disc_DY)
    in map_of metrics ''train/loss_gen_total'' = Some (loss_gen_total g) \<and>
       calls s' =
         calls s @ [ZeroGrad Gen_G, ZeroGrad Gen_F, Backward [Gen_G, Gen_F, Disc_DX, Disc_DY],
           ClipGradNorm [Gen_G, Gen_F], OptStep Gen_G, OptStep Gen_F,
           ZeroGrad Disc_DX, Backward [Disc_DX], ClipGradNorm [Disc_DX], OptStep Disc_DX,
           ZeroGrad Disc_DY, Backward [Disc_DY], ClipGradNorm [Disc_DY], OptStep Disc_DY] \<and>
       params s' Gen_G =
         snd (adam_step ag (opt_states s Gen_G) (params s Gen_G)
                (Some (grad_scale ag (clip_coef ag [dG, dF] 1) dG))) \<and>
       params s' Gen_F =
         snd (adam_step ag (opt_states s Gen_F) (params s Gen_F)
                (Some (grad_scale ag (clip_coef ag [dG, dF] 1) dF))) \<and>
       params s' Disc_DX =
         snd (adam_step ag (opt_states s Disc_DX) (params s Disc_DX)
                (Some (grad_scale ag (clip_coef ag [dDX] 1) dDX))) \<and>
       params s' Disc_DY =
         snd (adam_step ag (opt_states s Disc_DY) (params s Disc_DY)
                (Some (grad_scale ag (clip_coef ag [dDY] 1) dDY))))"
proof -
  let ?s1 = "fst (update_generators ag t w (x, y) s)"
  let ?g = "generator_forward (nets_at ag (params s)) t w x y"
  let ?s' = "fst (perform_train_step ag t w (x, y) s)"
  have s': "?s' = fst (update_discriminators ag t (x, y) (fake_x ?g) (fake_y ?g) ?s1)"
    by (simp only: perform_train_step_phases update_generators_pass)
  have loss: "map_of (snd (perform_train_step ag t w (x, y) s)) ''train/loss_gen_total'' =
      Some (loss_gen_total ?g)"
    by (rule perform_train_step_gen_total)
  have log: "calls ?s' =
         calls s @ [ZeroGrad Gen_G, ZeroGrad Gen_F, Backward [Gen_G, Gen_F, Disc_DX, Disc_DY],
           ClipGradNorm [Gen_G, Gen_F], OptStep Gen_G, OptStep Gen_F,
           ZeroGrad Disc_DX, Backward [Disc_DX], ClipGradNorm [Disc_DX], OptStep Disc_DX,
           ZeroGrad Disc_DY, Backward [Disc_DY], ClipGradNorm [Disc_DY], OptStep Disc_DY]"
    by (simp add: s' update_discriminators_calls update_generators_calls)
  have gens: "params ?s' Gen_G = params ?s1 Gen_G" "params ?s' Gen_F = params ?s1 Gen_F"
    by (simp_all only: s' update_discriminators_frame)
  have discs: "params ?s' Disc_DX =
      (let dDX = gradient ag (\<lambda>p. discriminator_loss t (fwd_DX ag p) x (fake_x ?g)) (params s Disc_DX)
       in snd (adam_step ag (opt_states s Disc_DX) (params s Disc_DX)
                (Some (grad_scale ag (clip_coef ag [dDX] 1) dDX))))"
    "params ?s' Disc_DY =
      (let dDY = gradient ag (\<lambda>p. discriminator_loss t (fwd_DY ag p) y (fake_y ?g)) (params s Disc_DY)
       in snd (adam_step ag (opt_states s Disc_DY) (params s Disc_DY)
                (Some (grad_scale ag (clip_coef ag [dDY] 1) dDY))))"
    by (simp_all only: s' update_discriminators_params update_generators_discs)
  show ?thesis
    using loss log gens discs update_generators_params [of ag t w x y s]
    by (simp add: Let_def)
qed

text \<open>
  Claim C4. The discriminator phase, run from any state with any fakes, leaves the
  parameters of G and F as they were; within a step, the parameters of G and F after
  the whole step are those after the generator phase.
\<close>

theorem discriminator_phase_frame:
  "params (fst (update_discriminators ag t b fx fy s)) Gen_G = params s Gen_G \<and>
   params (fst (update_discriminators ag t b fx fy s)) Gen_F = params s Gen_F \<and>
   params (fst (perform_train_step ag t w b s)) Gen_G =
     params (fst (update_generators ag t w b s)) Gen_G \<and>
   params (fst (perform_train_step ag t w b s)) Gen_F =
     params (fst (update_generators ag t w b s)) Gen_F"
  by (simp only: perform_train_step_phases update_discriminators_frame)

end
